theory Spec2Isabelle
  imports Main
begin

section \<open>Data model of the webpack configuration\<close>

text \<open>
  The helpers of \<^verbatim>\<open>src/index.ts\<close> edit one webpack \<^verbatim>\<open>Configuration\<close> object in place.
  The model passes the configuration in and returns it as the call leaves it. An optional
  property of a JavaScript object is an \<open>option\<close> field: \<open>None\<close> is \<^verbatim>\<open>undefined\<close>. The code
  reads the properties of the configuration and of an external definition only through
  \<^verbatim>\<open>||\<close>, \<^verbatim>\<open>&&\<close>, \<^verbatim>\<open>if\<close> and property access, which do not tell an absent property from
  one that holds \<^verbatim>\<open>undefined\<close>; the options records are spread, which does, and they get a
  type of their own below.
\<close>

subsection \<open>Plugins\<close>

text \<open>
  A plugin is an object with a prototype chain and a constructor. \<^verbatim>\<open>x instanceof C\<close> holds
  when \<open>C\<close> is on the chain of \<open>x\<close>; \<^verbatim>\<open>x.constructor.name\<close> is a string. The three classes
  that \<^verbatim>\<open>index.ts\<close> imports are named; \<open>OtherClass n\<close> stands for every other class, among
  them a second copy of zip-webpack-plugin loaded from another module instance.
\<close>

datatype class_id = ZipPlugin | CopyPlugin | DuplicatePackageCheckerPlugin | OtherClass nat

record copy_pattern =
  copy_from :: string
  copy_to :: string
  cache :: bool

datatype plugin_args = NoArgs | CopyPatterns "copy_pattern list" | OtherArgs nat

record plugin =
  classes :: "class_id list"
  constructor_name :: string
  args :: plugin_args

subsection \<open>Module rules\<close>

datatype option_value = OptString string | OptBool bool | OptUndefined

datatype use_entry = UseString string | UseLoader string "(string \<times> option_value) list"

datatype enforce_stage = Pre | Post

text \<open>
  The regular expressions of \<^verbatim>\<open>index.ts\<close> all test the end of a file name for a dot and one
  of a list of extensions: \<open>Extensions [e1, ..., en]\<close> is \<^verbatim>\<open>/\.(e1|...|en)$/\<close>. A rule of
  the caller can carry any other test.
\<close>

datatype rule_test = Extensions "string list" | OtherTest nat

record rule =
  test :: rule_test
  use :: "use_entry list"
  enforce :: "enforce_stage option"

record Module =
  rules :: "rule list option"

subsection \<open>Resolution, externals, devtool\<close>

record Resolve =
  "alias" :: "(string \<rightharpoonup> string) option"
  extensions :: "string list option"
  modules :: "string list option"

datatype externals_value = EVString string | EVBool bool | EVStrings "string list"

datatype externals_element =
  ExtString string
  | ExtRegExp string
  | ExtObject "(string \<times> externals_value) list"
  | ExtFunction nat

datatype externals_field = ExternalsElement externals_element | ExternalsArray "externals_element list"

datatype devtool_value = DevtoolString string | DevtoolBool bool

subsection \<open>The configuration\<close>

text \<open>
  The entry field is whatever \<^verbatim>\<open>GlobEntriesPlugin.getEntries\<close> returns or the caller has set;
  its type is the parameter \<open>'e\<close>.
\<close>

record 'e Configuration =
  "context" :: "string option"
  entry :: "'e option"
  devtool :: "devtool_value option"
  externals :: "externals_field option"
  "module" :: "Module option"
  plugins :: "plugin list option"
  resolve :: "Resolve option"

subsection \<open>Calls that can raise\<close>

text \<open>
  A call either returns or raises; in both cases the configuration keeps the writes made
  so far, since the object is edited in place.
\<close>

datatype error = TypeError

datatype 'a outcome = Returned 'a | Raised error 'a

fun final :: "'a outcome \<Rightarrow> 'a" where
  "final (Returned a) = a"
| "final (Raised e a) = a"

fun returned :: "'a outcome \<Rightarrow> bool" where
  "returned (Returned a) = True"
| "returned (Raised e a) = False"

fun and_then :: "'a outcome \<Rightarrow> ('a \<Rightarrow> 'a outcome) \<Rightarrow> 'a outcome" where
  "and_then (Returned a) f = f a"
| "and_then (Raised e a) f = Raised e a"

fun with_options :: "'o \<Rightarrow> 'a outcome \<Rightarrow> ('a \<times> 'o) outcome" where
  "with_options opts (Returned a) = Returned (a, opts)"
| "with_options opts (Raised e a) = Raised e (a, opts)"

subsection \<open>External collaborators\<close>

text \<open>
  Node's \<^verbatim>\<open>path.resolve\<close> and \<^verbatim>\<open>path.join\<close> (for the working directory of the process) and
  \<^verbatim>\<open>GlobEntriesPlugin.getEntries\<close> are not code of this repository: they are parameters.
  On strings none of them raises.
\<close>

record 'e collaborators =
  path_resolve :: "string list \<Rightarrow> string"
  path_join :: "string list \<Rightarrow> string"
  getEntries :: "string list \<Rightarrow> 'e"

section \<open>fixZipPackage\<close>

text \<open>
  \<^verbatim>\<open>Array.prototype.sort\<close> with a comparator, as ECMAScript 2019 specifies it: the sort is
  stable, and for a consistent comparator the result is the sorted permutation that keeps
  equal elements in their order. Insertion from the right computes it: an element goes in
  front of the first element it does not compare greater than.
\<close>

fun sort_insert :: "('a \<Rightarrow> 'a \<Rightarrow> int) \<Rightarrow> 'a \<Rightarrow> 'a list \<Rightarrow> 'a list" where
  "sort_insert cmp x [] = [x]"
| "sort_insert cmp x (y # ys) =
     (if cmp x y \<le> 0 then x # y # ys else y # sort_insert cmp x ys)"

definition array_sort :: "('a \<Rightarrow> 'a \<Rightarrow> int) \<Rightarrow> 'a list \<Rightarrow> 'a list" where
  "array_sort cmp xs = foldr (sort_insert cmp) xs []"

definition instanceof :: "plugin \<Rightarrow> class_id \<Rightarrow> bool" where
  "instanceof x c = (c \<in> set (classes x))"

definition isZipPlugin :: "plugin \<Rightarrow> bool" where
  "isZipPlugin x = (instanceof x ZipPlugin \<or> constructor_name x = ''ZipPlugin'')"

definition zip_compare :: "plugin \<Rightarrow> plugin \<Rightarrow> int" where
  "zip_compare a b =
     (let aIsZip = (if isZipPlugin a then 1 else 0);
          bIsZip = (if isZipPlugin b then 1 else 0)
      in aIsZip - bIsZip)"

definition fixZipPackage :: "'e Configuration \<Rightarrow> 'e Configuration" where
  "fixZipPackage config =
     (case plugins config of
        None \<Rightarrow> config
      | Some ps \<Rightarrow> config\<lparr>plugins := Some (array_sort zip_compare ps)\<rparr>)"

section \<open>getDedupeAliases and dedupeModules\<close>

text \<open>
  A parameter with a default value takes the default when the argument is \<^verbatim>\<open>undefined\<close>.
  The loop of \<^verbatim>\<open>getDedupeAliases\<close> assigns one key per module name, in list order, to an
  object that starts empty. The assignment \<^verbatim>\<open>alias[mod] = path\<close> on a plain object stores
  an own property for every name but \<^verbatim>\<open>__proto__\<close>: that name reaches the setter
  inherited from \<^verbatim>\<open>Object.prototype\<close>, which ignores a string and stores nothing.
\<close>

definition assign_property :: "string \<Rightarrow> string \<Rightarrow> (string \<rightharpoonup> string) \<Rightarrow> (string \<rightharpoonup> string)" where
  "assign_property k v al = (if k = ''__proto__'' then al else al(k \<mapsto> v))"

definition folder_or_default :: "string option \<Rightarrow> string" where
  "folder_or_default folder = (case folder of None \<Rightarrow> ''./node_modules'' | Some f \<Rightarrow> f)"

definition getDedupeAliases ::
  "'e collaborators \<Rightarrow> string list \<Rightarrow> string option \<Rightarrow> (string \<rightharpoonup> string)" where
  "getDedupeAliases E mods folder =
     fold (\<lambda>m al. assign_property m (path_resolve E [path_join E [folder_or_default folder, m]]) al)
       mods Map.empty"

definition empty_resolve :: Resolve where
  "empty_resolve = \<lparr>alias = None, extensions = None, modules = None\<rparr>"

definition resolve_or_empty :: "'e Configuration \<Rightarrow> Resolve" where
  "resolve_or_empty config = (case resolve config of None \<Rightarrow> empty_resolve | Some r \<Rightarrow> r)"

definition plugins_or_empty :: "'e Configuration \<Rightarrow> plugin list" where
  "plugins_or_empty config = (case plugins config of None \<Rightarrow> [] | Some ps \<Rightarrow> ps)"

definition spread_alias :: "Resolve \<Rightarrow> (string \<rightharpoonup> string)" where
  "spread_alias r = (case alias r of None \<Rightarrow> Map.empty | Some a \<Rightarrow> a)"

definition new_DuplicatePackageCheckerPlugin :: plugin where
  "new_DuplicatePackageCheckerPlugin =
     \<lparr>classes = [DuplicatePackageCheckerPlugin],
      constructor_name = ''DuplicatePackageCheckerPlugin'',
      args = NoArgs\<rparr>"

definition dedupeModules ::
  "'e collaborators \<Rightarrow> 'e Configuration \<Rightarrow> string list \<Rightarrow> string option \<Rightarrow> 'e Configuration" where
  "dedupeModules E config mods folder =
     (let r = resolve_or_empty config;
          r' = r\<lparr>alias := Some (spread_alias r ++ getDedupeAliases E mods (Some (folder_or_default folder)))\<rparr>;
          ps = plugins_or_empty config;
          ps' = (if list_ex (\<lambda>p. instanceof p DuplicatePackageCheckerPlugin) ps then ps
                 else ps @ [new_DuplicatePackageCheckerPlugin])
      in config\<lparr>resolve := Some r', plugins := Some ps'\<rparr>)"

section \<open>Module rules: useSourceMap, useTypescript, useCss\<close>

text \<open>
  \<^verbatim>\<open>config.module = config.module || { rules: [] }\<close> keeps a module record that is there,
  whatever it holds. \<^verbatim>\<open>config.module.rules.push(r)\<close> reads \<^verbatim>\<open>rules\<close> of that record: on a
  record without a rules list the read gives \<^verbatim>\<open>undefined\<close> and the call of \<^verbatim>\<open>push\<close> raises
  a TypeError. The typings of webpack 4 declare \<^verbatim>\<open>rules\<close> a required property of the module
  record, so that a caller checked against them never passes such a record.
\<close>

definition init_module :: "'e Configuration \<Rightarrow> 'e Configuration" where
  "init_module config =
     config\<lparr>module := Some (case module config of None \<Rightarrow> \<lparr>rules = Some []\<rparr> | Some m \<Rightarrow> m)\<rparr>"

definition push_rule :: "rule \<Rightarrow> 'e Configuration \<Rightarrow> 'e Configuration outcome" where
  "push_rule r config =
     (case module config of
        None \<Rightarrow> Raised TypeError config
      | Some m \<Rightarrow>
          (case rules m of
             None \<Rightarrow> Raised TypeError config
           | Some rs \<Rightarrow> Returned (config\<lparr>module := Some (m\<lparr>rules := Some (rs @ [r])\<rparr>)\<rparr>)))"

definition source_map_rule :: rule where
  "source_map_rule =
     \<lparr>test = Extensions [''js''], use = [UseString ''source-map-loader''], enforce = Some Pre\<rparr>"

definition useSourceMap :: "'e Configuration \<Rightarrow> bool \<Rightarrow> 'e Configuration outcome" where
  "useSourceMap config dev =
     (if dev then
        push_rule source_map_rule
          (init_module (config\<lparr>devtool := Some (DevtoolString ''cheap-module-source-map'')\<rparr>))
      else Returned (config\<lparr>devtool := Some (DevtoolString ''source-map'')\<rparr>))"

subsection \<open>Options records\<close>

text \<open>
  An optional property \<^verbatim>\<open>f?: T\<close> of an options record is absent, or present with the value
  \<^verbatim>\<open>undefined\<close>, or present with a value of \<open>T\<close>. The object spread
  \<^verbatim>\<open>{ ...defaults, ...options }\<close> copies every own property of \<^verbatim>\<open>options\<close> over the default,
  also one whose value is \<^verbatim>\<open>undefined\<close>; so a field of the merged record \<^verbatim>\<open>options_\<close> holds a
  value or \<^verbatim>\<open>undefined\<close> (\<open>None\<close>).
\<close>

datatype 'a optional = Absent | Undefined | Value 'a

fun override :: "'a option \<Rightarrow> 'a optional \<Rightarrow> 'a option" where
  "override d Absent = d"
| "override d Undefined = None"
| "override d (Value v) = Some v"

subsection \<open>useTypescript\<close>

text \<open>
  \<open>modules_option\<close> is the field \<^verbatim>\<open>modules\<close> of \<^verbatim>\<open>TypeScriptOptions\<close>. The spread of
  \<^verbatim>\<open>options_.modules\<close> into an array and the call \<^verbatim>\<open>options_.entryPaths.map\<close> raise a
  TypeError on \<^verbatim>\<open>undefined\<close>, each before the assignment it stands in writes anything.
\<close>

record TypeScriptOptions =
  entryPaths :: "string list optional"
  modules_option :: "string list optional"
  tsConfigFile :: "string optional"

record typescript_settings =
  entryPaths' :: "string list option"
  modules' :: "string list option"
  tsConfigFile' :: "string option"

definition context_or_app :: "'e Configuration \<Rightarrow> string" where
  "context_or_app config =
     (case context config of None \<Rightarrow> ''app'' | Some c \<Rightarrow> if c = [] then ''app'' else c)"

definition typescript_defaults :: "'e collaborators \<Rightarrow> 'e Configuration \<Rightarrow> typescript_settings" where
  "typescript_defaults E config =
     \<lparr>entryPaths' = Some [path_resolve E [context_or_app config, ''**'']],
      modules' = Some [''./node_modules''],
      tsConfigFile' = Some ''tsconfig.json''\<rparr>"

definition spread_typescript ::
  "typescript_settings \<Rightarrow> TypeScriptOptions option \<Rightarrow> typescript_settings" where
  "spread_typescript d options =
     (case options of
        None \<Rightarrow> d
      | Some opt \<Rightarrow>
          \<lparr>entryPaths' = override (entryPaths' d) (entryPaths opt),
           modules' = override (modules' d) (modules_option opt),
           tsConfigFile' = override (tsConfigFile' d) (tsConfigFile opt)\<rparr>)"

definition typescript_options ::
  "'e collaborators \<Rightarrow> 'e Configuration \<Rightarrow> TypeScriptOptions option \<Rightarrow> typescript_settings" where
  "typescript_options E config options = spread_typescript (typescript_defaults E config) options"

definition ENTRY_FILES :: string where
  "ENTRY_FILES = ''*.{js,mjs,jsx,ts,tsx}''"

definition tslint_rule :: "typescript_settings \<Rightarrow> rule" where
  "tslint_rule o' =
     \<lparr>test = Extensions [''ts'', ''tsx''],
      use = [UseLoader ''tslint-loader''
               [(''tsConfigFile'',
                   (case tsConfigFile' o' of None \<Rightarrow> OptUndefined | Some f \<Rightarrow> OptString f)),
                (''emitErrors'', OptBool True)]],
      enforce = Some Pre\<rparr>"

definition ts_rule :: rule where
  "ts_rule = \<lparr>test = Extensions [''ts'', ''tsx''], use = [UseLoader ''ts-loader'' []], enforce = None\<rparr>"

definition typescript_resolve ::
  "typescript_settings \<Rightarrow> 'e Configuration \<Rightarrow> 'e Configuration outcome" where
  "typescript_resolve o' config =
     (let r = resolve_or_empty config;
          exts = (case extensions r of None \<Rightarrow> [] | Some es \<Rightarrow> es);
          ms = (case modules r of None \<Rightarrow> [] | Some ms \<Rightarrow> ms);
          r1 = r\<lparr>extensions := Some ((exts @ [''.ts'']) @ [''.tsx'']), modules := Some ms\<rparr>
      in case modules' o' of
           None \<Rightarrow> Raised TypeError (config\<lparr>resolve := Some r1\<rparr>)
         | Some ms' \<Rightarrow> Returned (config\<lparr>resolve := Some (r1\<lparr>modules := Some (ms @ ms')\<rparr>)\<rparr>))"

definition typescript_entry ::
  "'e collaborators \<Rightarrow> typescript_settings \<Rightarrow> 'e Configuration \<Rightarrow> 'e Configuration outcome" where
  "typescript_entry E o' config =
     (case entryPaths' o' of
        None \<Rightarrow> Raised TypeError config
      | Some ps \<Rightarrow>
          Returned (config\<lparr>entry :=
            Some (getEntries E (map (\<lambda>p. path_resolve E [p, ENTRY_FILES]) ps))\<rparr>))"

definition typescript_rules ::
  "typescript_settings \<Rightarrow> 'e Configuration \<Rightarrow> 'e Configuration outcome" where
  "typescript_rules o' config =
     and_then (push_rule (tslint_rule o') (init_module config)) (push_rule ts_rule)"

definition useTypescript ::
  "'e collaborators \<Rightarrow> 'e Configuration \<Rightarrow> TypeScriptOptions option
     \<Rightarrow> ('e Configuration \<times> TypeScriptOptions option) outcome" where
  "useTypescript E config options =
     (let o' = typescript_options E config options
      in with_options options
           (and_then
              (and_then (typescript_resolve o' config) (typescript_entry E o'))
              (typescript_rules o')))"

subsection \<open>useCss\<close>

text \<open>
  A template string writes \<^verbatim>\<open>undefined\<close> as the text \<^verbatim>\<open>undefined\<close>, and \<^verbatim>\<open>!undefined\<close> is
  \<^verbatim>\<open>true\<close>.
\<close>

record CssOptions =
  optimizeImages :: "bool optional"
  imagePath :: "string optional"

record css_settings =
  optimizeImages' :: "bool option"
  imagePath' :: "string option"

definition css_defaults :: css_settings where
  "css_defaults = \<lparr>optimizeImages' = Some True, imagePath' = Some ''images''\<rparr>"

definition spread_css :: "css_settings \<Rightarrow> CssOptions option \<Rightarrow> css_settings" where
  "spread_css d options =
     (case options of
        None \<Rightarrow> d
      | Some opt \<Rightarrow>
          \<lparr>optimizeImages' = override (optimizeImages' d) (optimizeImages opt),
           imagePath' = override (imagePath' d) (imagePath opt)\<rparr>)"

definition css_options :: "CssOptions option \<Rightarrow> css_settings" where
  "css_options options = spread_css css_defaults options"

definition template_string :: "string option \<Rightarrow> string" where
  "template_string v = (case v of None \<Rightarrow> ''undefined'' | Some s \<Rightarrow> s)"

definition truthy_bool :: "bool option \<Rightarrow> bool" where
  "truthy_bool v = (case v of None \<Rightarrow> False | Some b \<Rightarrow> b)"

definition css_rule :: rule where
  "css_rule =
     \<lparr>test = Extensions [''css''],
      use = [UseLoader ''style-loader'' [], UseLoader ''css-loader'' []],
      enforce = None\<rparr>"

definition image_rule :: "css_settings \<Rightarrow> rule" where
  "image_rule o' =
     \<lparr>test = Extensions [''bmp'', ''gif'', ''jpg'', ''jpeg'', ''png'', ''svg'', ''tif'', ''tiff'', ''webp''],
      use = [UseLoader ''file-loader''
               [(''outputPath'', OptString (template_string (imagePath' o') @ ''/'')),
                (''publicPath'', OptString (''/'' @ template_string (imagePath' o') @ ''/''))],
             UseLoader ''image-webpack-loader''
               [(''disable'', OptBool (\<not> truthy_bool (optimizeImages' o')))]],
      enforce = None\<rparr>"

definition useCss ::
  "'e Configuration \<Rightarrow> CssOptions option \<Rightarrow> ('e Configuration \<times> CssOptions option) outcome" where
  "useCss config options =
     (let o' = css_options options
      in with_options options
           (and_then (push_rule css_rule (init_module config)) (push_rule (image_rule o'))))"

section \<open>useExternal\<close>

text \<open>
  \<open>module_id\<close> is the field \<^verbatim>\<open>module\<close> of \<^verbatim>\<open>ExternalDefinition\<close>. A condition of JavaScript
  tests truthiness: among the values the externals field can hold only the empty string is
  falsy (objects, arrays, regular expressions and functions are truthy), and a string is
  truthy when it is not empty.
\<close>

record ExternalDefinition =
  module_id :: string
  global :: string
  "from" :: "string option"
  to :: "string option"

fun truthy_externals :: "externals_field option \<Rightarrow> bool" where
  "truthy_externals None = False"
| "truthy_externals (Some (ExternalsElement (ExtString s))) = (s \<noteq> [])"
| "truthy_externals (Some (ExternalsElement x)) = True"
| "truthy_externals (Some (ExternalsArray xs)) = True"

fun truthy_string :: "string option \<Rightarrow> bool" where
  "truthy_string None = False"
| "truthy_string (Some s) = (s \<noteq> [])"

definition external_of :: "ExternalDefinition \<Rightarrow> externals_element" where
  "external_of d = ExtObject [(module_id d, EVString (global d))]"

definition merge_externals :: "externals_field option \<Rightarrow> externals_element \<Rightarrow> externals_field" where
  "merge_externals old external =
     (if truthy_externals old then
        (case old of
           Some (ExternalsArray xs) \<Rightarrow> ExternalsArray (xs @ [external])
         | Some (ExternalsElement x) \<Rightarrow> ExternalsArray [x, external]
         | None \<Rightarrow> ExternalsElement external)
      else ExternalsElement external)"

definition new_CopyPlugin :: "string \<Rightarrow> string \<Rightarrow> plugin" where
  "new_CopyPlugin f t =
     \<lparr>classes = [CopyPlugin],
      constructor_name = ''CopyPlugin'',
      args = CopyPatterns [\<lparr>copy_from = f, copy_to = t, cache = True\<rparr>]\<rparr>"

definition useExternal :: "'e Configuration \<Rightarrow> ExternalDefinition \<Rightarrow> 'e Configuration" where
  "useExternal config d =
     (let config1 = config\<lparr>externals := Some (merge_externals (externals config) (external_of d))\<rparr>;
          ps = plugins_or_empty config1
      in if truthy_string (from d) \<and> truthy_string (to d)
         then (case (from d, to d) of
                 (Some f, Some t) \<Rightarrow> config1\<lparr>plugins := Some (ps @ [new_CopyPlugin f t])\<rparr>
               | _ \<Rightarrow> config1\<lparr>plugins := Some ps\<rparr>)
         else config1\<lparr>plugins := Some ps\<rparr>)"

section \<open>Configurations used to state the properties\<close>

text \<open>
  The configuration with no field set; the condition that a module record, when there is
  one, has a rules list (what the typings of webpack 4 require of every module record);
  and the rules a configuration holds, none when it has no module record or no list.
\<close>

definition empty_configuration :: "'e Configuration" where
  "empty_configuration =
     \<lparr>context = None, entry = None, devtool = None, externals = None, module = None,
      plugins = None, resolve = None\<rparr>"

definition rules_declared :: "'e Configuration \<Rightarrow> bool" where
  "rules_declared config = (case module config of None \<Rightarrow> True | Some m \<Rightarrow> rules m \<noteq> None)"

definition rules_or_empty :: "'e Configuration \<Rightarrow> rule list" where
  "rules_or_empty config =
     (case module config of
        None \<Rightarrow> []
      | Some m \<Rightarrow> (case rules m of None \<Rightarrow> [] | Some rs \<Rightarrow> rs))"

text \<open>
  The configuration with the resolve record, its extensions list and its modules list set
  to empty containers where they are absent.
\<close>

definition init_typescript_resolve :: "'e Configuration \<Rightarrow> 'e Configuration" where
  "init_typescript_resolve config =
     config\<lparr>resolve := Some ((resolve_or_empty config)
       \<lparr>extensions := Some (case extensions (resolve_or_empty config) of None \<Rightarrow> [] | Some es \<Rightarrow> es),
        modules := Some (case modules (resolve_or_empty config) of None \<Rightarrow> [] | Some ms \<Rightarrow> ms)\<rparr>)\<rparr>"

section \<open>Properties of fixZipPackage\<close>

lemma sort_insert_nonzip:
  "\<not> isZipPlugin x \<Longrightarrow> sort_insert zip_compare x ys = x # ys"
  by (cases ys) (simp_all add: zip_compare_def)

lemma sort_insert_zip_among_zips:
  "isZipPlugin x \<Longrightarrow> \<forall>p \<in> set zs. isZipPlugin p \<Longrightarrow> sort_insert zip_compare x zs = x # zs"
  by (cases zs) (simp_all add: zip_compare_def)

lemma sort_insert_zip_past_others:
  "isZipPlugin x \<Longrightarrow> \<forall>p \<in> set ns. \<not> isZipPlugin p \<Longrightarrow>
     sort_insert zip_compare x (ns @ zs) = ns @ sort_insert zip_compare x zs"
  by (induction ns) (simp_all add: zip_compare_def)

lemma array_sort_zip_compare:
  "array_sort zip_compare ps = filter (\<lambda>p. \<not> isZipPlugin p) ps @ filter isZipPlugin ps"
proof (induction ps)
  case Nil
  show ?case by (simp add: array_sort_def)
next
  case (Cons x ps)
  have step: "array_sort zip_compare (x # ps) = sort_insert zip_compare x (array_sort zip_compare ps)"
    by (simp add: array_sort_def)
  show ?case
  proof (cases "isZipPlugin x")
    case True
    then show ?thesis
      using Cons.IH step
      by (simp add: sort_insert_zip_past_others sort_insert_zip_among_zips)
  next
    case False
    then show ?thesis
      using Cons.IH step by (simp add: sort_insert_nonzip)
  qed
qed

lemma zips_after_others:
  assumes "i < length (ns @ zs)" "j < length (ns @ zs)"
    and "\<forall>p \<in> set ns. \<not> isZipPlugin p" "\<forall>p \<in> set zs. isZipPlugin p"
    and "isZipPlugin ((ns @ zs) ! i)" "\<not> isZipPlugin ((ns @ zs) ! j)"
  shows "j < i"
proof -
  have i: "\<not> i < length ns"
    using assms(3,5) by (auto simp: nth_append)
  have j: "j < length ns"
    using assms(2,4,6) by (cases "j < length ns") (auto simp: nth_append)
  from i j show ?thesis by simp
qed



text \<open>
  Claim C1. For every configuration, \<open>fixZipPackage\<close> leaves a configuration with no plugins
  list, or with an empty one, as it is; on a plugins list \<open>ps\<close> it stores a list \<open>qs\<close> in
  which the plugins that are not zip plugins (by class or by constructor name) stand in
  their order of \<open>ps\<close>, the zip plugins stand in their order of \<open>ps\<close>, every zip plugin
  stands after every other plugin, and the length is that of \<open>ps\<close>.
\<close>

theorem fixZipPackage_stable_partition:
  "(plugins config = None \<longrightarrow> fixZipPackage config = config) \<and>
   (plugins config = Some [] \<longrightarrow> fixZipPackage config = config) \<and>
   (\<forall>ps. plugins config = Some ps \<longrightarrow>
      (\<exists>qs. fixZipPackage config = config\<lparr>plugins := Some qs\<rparr> \<and>
         filter (\<lambda>p. \<not> isZipPlugin p) qs = filter (\<lambda>p. \<not> isZipPlugin p) ps \<and>
         filter isZipPlugin qs = filter isZipPlugin ps \<and>
         qs = filter (\<lambda>p. \<not> isZipPlugin p) ps @ filter isZipPlugin ps \<and>
         (\<forall>i j. i < length qs \<and> j < length qs \<and> isZipPlugin (qs ! i) \<and> \<not> isZipPlugin (qs ! j)
            \<longrightarrow> j < i) \<and>
         length qs = length ps))"
proof (intro conjI impI allI)
  assume "plugins config = None"
  then show "fixZipPackage config = config" by (simp add: fixZipPackage_def)
next
  assume "plugins config = Some []"
  then show "fixZipPackage config = config"
    by (simp add: fixZipPackage_def array_sort_def)
next
  fix ps
  assume ps: "plugins config = Some ps"
  let ?ns = "filter (\<lambda>p. \<not> isZipPlugin p) ps"
  let ?zs = "filter isZipPlugin ps"
  have a: "fixZipPackage config = config\<lparr>plugins := Some (?ns @ ?zs)\<rparr>"
    using ps by (simp add: fixZipPackage_def array_sort_zip_compare)
  have b: "filter (\<lambda>p. \<not> isZipPlugin p) (?ns @ ?zs) = ?ns" by simp
  have c: "filter isZipPlugin (?ns @ ?zs) = ?zs" by simp
  have d: "\<forall>i j. i < length (?ns @ ?zs) \<and> j < length (?ns @ ?zs) \<and>
             isZipPlugin ((?ns @ ?zs) ! i) \<and> \<not> isZipPlugin ((?ns @ ?zs) ! j) \<longrightarrow> j < i"
  proof (intro allI impI)
    fix i j
    assume h: "i < length (?ns @ ?zs) \<and> j < length (?ns @ ?zs) \<and>
             isZipPlugin ((?ns @ ?zs) ! i) \<and> \<not> isZipPlugin ((?ns @ ?zs) ! j)"
    show "j < i"
    proof (rule zips_after_others [of i ?ns ?zs j])
      show "i < length (?ns @ ?zs)" using h by blast
      show "j < length (?ns @ ?zs)" using h by blast
      show "\<forall>p \<in> set ?ns. \<not> isZipPlugin p" by simp
      show "\<forall>p \<in> set ?zs. isZipPlugin p" by simp
      show "isZipPlugin ((?ns @ ?zs) ! i)" using h by blast
      show "\<not> isZipPlugin ((?ns @ ?zs) ! j)" using h by blast
    qed
  qed
  have e: "length (?ns @ ?zs) = length ps"
    using sum_length_filter_compl [of isZipPlugin ps] by simp
  show "\<exists>qs. fixZipPackage config = config\<lparr>plugins := Some qs\<rparr> \<and>
         filter (\<lambda>p. \<not> isZipPlugin p) qs = filter (\<lambda>p. \<not> isZipPlugin p) ps \<and>
         filter isZipPlugin qs = filter isZipPlugin ps \<and>
         qs = filter (\<lambda>p. \<not> isZipPlugin p) ps @ filter isZipPlugin ps \<and>
         (\<forall>i j. i < length qs \<and> j < length qs \<and> isZipPlugin (qs ! i) \<and> \<not> isZipPlugin (qs ! j)
            \<longrightarrow> j < i) \<and>
         length qs = length ps"
  proof (rule exI [of _ "?ns @ ?zs"], intro conjI)
    show "fixZipPackage config = config\<lparr>plugins := Some (?ns @ ?zs)\<rparr>" by (rule a)
    show "filter (\<lambda>p. \<not> isZipPlugin p) (?ns @ ?zs) = ?ns" by (rule b)
    show "filter isZipPlugin (?ns @ ?zs) = ?zs" by (rule c)
    show "?ns @ ?zs = ?ns @ ?zs" by (rule refl)
    show "\<forall>i j. i < length (?ns @ ?zs) \<and> j < length (?ns @ ?zs) \<and>
             isZipPlugin ((?ns @ ?zs) ! i) \<and> \<not> isZipPlugin ((?ns @ ?zs) ! j) \<longrightarrow> j < i" by (rule d)
    show "length (?ns @ ?zs) = length ps" by (rule e)
  qed
qed


theorem fixZipPackage_stable_partition_witness:
  "fixZipPackage (empty_configuration :: unit Configuration) = empty_configuration \<and>
   fixZipPackage (empty_configuration\<lparr>plugins := Some []\<rparr> :: unit Configuration)
     = empty_configuration\<lparr>plugins := Some []\<rparr> \<and>
   fixZipPackage
     (empty_configuration\<lparr>plugins := Some
        [\<lparr>classes = [ZipPlugin], constructor_name = ''ZipPlugin'', args = OtherArgs 0\<rparr>,
         \<lparr>classes = [OtherClass 1], constructor_name = ''CleanPlugin'', args = NoArgs\<rparr>,
         \<lparr>classes = [OtherClass 2], constructor_name = ''ZipPlugin'', args = OtherArgs 1\<rparr>,
         new_CopyPlugin ''a.js'' ''b.js'']\<rparr> :: unit Configuration)
     = empty_configuration\<lparr>plugins := Some
        [\<lparr>classes = [OtherClass 1], constructor_name = ''CleanPlugin'', args = NoArgs\<rparr>,
         new_CopyPlugin ''a.js'' ''b.js'',
         \<lparr>classes = [ZipPlugin], constructor_name = ''ZipPlugin'', args = OtherArgs 0\<rparr>,
         \<lparr>classes = [OtherClass 2], constructor_name = ''ZipPlugin'', args = OtherArgs 1\<rparr>]\<rparr>"
  using
    fixZipPackage_stable_partition [of "empty_configuration :: unit Configuration"]
    fixZipPackage_stable_partition [of "empty_configuration\<lparr>plugins := Some []\<rparr> :: unit Configuration"]
    fixZipPackage_stable_partition
      [of "empty_configuration\<lparr>plugins := Some
        [\<lparr>classes = [ZipPlugin], constructor_name = ''ZipPlugin'', args = OtherArgs 0\<rparr>,
         \<lparr>classes = [OtherClass 1], constructor_name = ''CleanPlugin'', args = NoArgs\<rparr>,
         \<lparr>classes = [OtherClass 2], constructor_name = ''ZipPlugin'', args = OtherArgs 1\<rparr>,
         new_CopyPlugin ''a.js'' ''b.js'']\<rparr> :: unit Configuration"]
  by (simp add: empty_configuration_def isZipPlugin_def instanceof_def new_CopyPlugin_def)

section \<open>Properties of useExternal: the externals field\<close>

text \<open>
  The condition \<^verbatim>\<open>if (config.externals)\<close> is false for the empty string, the one falsy
  value the field can hold: the old value is then dropped, not kept in a list of two.
\<close>

theorem useExternal_falsy_externals_counterexample:
  "externals (useExternal
      (empty_configuration\<lparr>externals := Some (ExternalsElement (ExtString ''''))\<rparr> :: unit Configuration)
      \<lparr>module_id = ''jquery'', global = ''jQuery'', from = None, to = None\<rparr>)
    = Some (ExternalsElement (ExtObject [(''jquery'', EVString ''jQuery'')])) \<and>
   externals (useExternal
      (empty_configuration\<lparr>externals := Some (ExternalsElement (ExtString ''''))\<rparr> :: unit Configuration)
      \<lparr>module_id = ''jquery'', global = ''jQuery'', from = None, to = None\<rparr>)
    \<noteq> Some (ExternalsArray [ExtString '''', ExtObject [(''jquery'', EVString ''jQuery'')]])"
  by (simp add: useExternal_def merge_externals_def external_of_def empty_configuration_def
      plugins_or_empty_def)

lemma externals_useExternal:
  "externals (useExternal config d) = Some (merge_externals (externals config) (external_of d))"
  by (simp add: useExternal_def Let_def split: option.splits prod.splits)

text \<open>
  Claim C2, amended. The new element is the object with the one key \<open>module_id d\<close> and the
  value \<open>global d\<close>. With no externals, and with the empty string as externals, the field
  becomes the new element alone; a list of length \<open>N\<close> gets the new element appended
  (length \<open>N + 1\<close>, the new element last); any other single value \<open>x\<close> becomes the list of
  \<open>x\<close> and the new element.
\<close>

theorem useExternal_externals_merge:
  "external_of d = ExtObject [(module_id d, EVString (global d))] \<and>
   (externals config = None \<longrightarrow>
      externals (useExternal config d) = Some (ExternalsElement (external_of d))) \<and>
   (\<forall>xs. externals config = Some (ExternalsArray xs) \<longrightarrow>
      (\<exists>ys. externals (useExternal config d) = Some (ExternalsArray ys) \<and>
         ys = xs @ [external_of d] \<and> length ys = length xs + 1 \<and> last ys = external_of d)) \<and>
   (\<forall>x. externals config = Some (ExternalsElement x) \<and> x \<noteq> ExtString '''' \<longrightarrow>
      externals (useExternal config d) = Some (ExternalsArray [x, external_of d])) \<and>
   (externals config = Some (ExternalsElement (ExtString '''')) \<longrightarrow>
      externals (useExternal config d) = Some (ExternalsElement (external_of d)))"
proof (intro conjI allI impI)
  show "external_of d = ExtObject [(module_id d, EVString (global d))]"
    by (simp add: external_of_def)
next
  assume "externals config = None"
  then show "externals (useExternal config d) = Some (ExternalsElement (external_of d))"
    by (simp add: externals_useExternal merge_externals_def)
next
  fix xs assume "externals config = Some (ExternalsArray xs)"
  then show "\<exists>ys. externals (useExternal config d) = Some (ExternalsArray ys) \<and>
         ys = xs @ [external_of d] \<and> length ys = length xs + 1 \<and> last ys = external_of d"
    by (simp add: externals_useExternal merge_externals_def)
next
  fix x assume h: "externals config = Some (ExternalsElement x) \<and> x \<noteq> ExtString ''''"
  then have "truthy_externals (externals config)"
    by (cases x) simp_all
  with h show "externals (useExternal config d) = Some (ExternalsArray [x, external_of d])"
    by (simp add: externals_useExternal merge_externals_def)
next
  assume "externals config = Some (ExternalsElement (ExtString ''''))"
  then show "externals (useExternal config d) = Some (ExternalsElement (external_of d))"
    by (simp add: externals_useExternal merge_externals_def)
qed

theorem useExternal_externals_merge_witness:
  "externals (useExternal (empty_configuration :: unit Configuration)
      \<lparr>module_id = ''jquery'', global = ''jQuery'', from = None, to = None\<rparr>)
     = Some (ExternalsElement (ExtObject [(''jquery'', EVString ''jQuery'')])) \<and>
   externals (useExternal
      (empty_configuration\<lparr>externals := Some (ExternalsArray [ExtString ''lodash''])\<rparr> :: unit Configuration)
      \<lparr>module_id = ''jquery'', global = ''jQuery'', from = None, to = None\<rparr>)
     = Some (ExternalsArray [ExtString ''lodash'', ExtObject [(''jquery'', EVString ''jQuery'')]]) \<and>
   externals (useExternal
      (empty_configuration\<lparr>externals := Some (ExternalsElement (ExtString ''lodash''))\<rparr> :: unit Configuration)
      \<lparr>module_id = ''jquery'', global = ''jQuery'', from = None, to = None\<rparr>)
     = Some (ExternalsArray [ExtString ''lodash'', ExtObject [(''jquery'', EVString ''jQuery'')]])"
  using
    useExternal_externals_merge [of "\<lparr>module_id = ''jquery'', global = ''jQuery'', from = None, to = None\<rparr>"
      "empty_configuration :: unit Configuration"]
    useExternal_externals_merge [of "\<lparr>module_id = ''jquery'', global = ''jQuery'', from = None, to = None\<rparr>"
      "empty_configuration\<lparr>externals := Some (ExternalsArray [ExtString ''lodash''])\<rparr> :: unit Configuration"]
    useExternal_externals_merge [of "\<lparr>module_id = ''jquery'', global = ''jQuery'', from = None, to = None\<rparr>"
      "empty_configuration\<lparr>externals := Some (ExternalsElement (ExtString ''lodash''))\<rparr> :: unit Configuration"]
  by (simp add: empty_configuration_def)


section \<open>Properties of dedupeModules: the duplicate package checker\<close>

lemma plugins_dedupeModules:
  "plugins (dedupeModules E config mods folder) =
     Some (if list_ex (\<lambda>p. instanceof p DuplicatePackageCheckerPlugin) (plugins_or_empty config)
           then plugins_or_empty config
           else plugins_or_empty config @ [new_DuplicatePackageCheckerPlugin])"
  by (simp add: dedupeModules_def Let_def)

lemma new_checker_is_instance:
  "instanceof new_DuplicatePackageCheckerPlugin DuplicatePackageCheckerPlugin"
  by (simp add: instanceof_def new_DuplicatePackageCheckerPlugin_def)

lemma checker_after_dedupeModules:
  "list_ex (\<lambda>p. instanceof p DuplicatePackageCheckerPlugin)
     (plugins_or_empty (dedupeModules E config mods folder))"
  by (simp add: plugins_or_empty_def plugins_dedupeModules new_checker_is_instance list_ex_iff)

lemma count_checkers_dedupeModules:
  "length (filter (\<lambda>p. instanceof p DuplicatePackageCheckerPlugin)
     (plugins_or_empty (dedupeModules E config mods folder)))
   = max 1 (length (filter (\<lambda>p. instanceof p DuplicatePackageCheckerPlugin) (plugins_or_empty config)))"
proof (cases "list_ex (\<lambda>p. instanceof p DuplicatePackageCheckerPlugin) (plugins_or_empty config)")
  case True
  then have "filter (\<lambda>p. instanceof p DuplicatePackageCheckerPlugin) (plugins_or_empty config) \<noteq> []"
    by (simp add: list_ex_iff filter_empty_conv)
  then have "1 \<le> length (filter (\<lambda>p. instanceof p DuplicatePackageCheckerPlugin) (plugins_or_empty config))"
    by (simp add: Suc_le_eq)
  with True show ?thesis
    by (simp add: plugins_or_empty_def [of "dedupeModules E config mods folder"] plugins_dedupeModules)
next
  case False
  then have "filter (\<lambda>p. instanceof p DuplicatePackageCheckerPlugin) (plugins_or_empty config) = []"
    by (simp add: list_ex_iff filter_empty_conv)
  with False show ?thesis
    by (simp add: plugins_or_empty_def [of "dedupeModules E config mods folder"] plugins_dedupeModules
        new_checker_is_instance)
qed

text \<open>
  A configuration that already holds two instances keeps both: the call adds an instance
  only when there is none, and removes nothing.
\<close>

theorem dedupeModules_twice_counterexample:
  "length (filter (\<lambda>p. instanceof p DuplicatePackageCheckerPlugin)
     (plugins_or_empty
        (dedupeModules \<lparr>path_resolve = concat, path_join = concat, getEntries = id\<rparr>
           (dedupeModules \<lparr>path_resolve = concat, path_join = concat, getEntries = id\<rparr>
              (empty_configuration\<lparr>plugins := Some
                 [new_DuplicatePackageCheckerPlugin, new_DuplicatePackageCheckerPlugin]\<rparr>)
              [''react''] None)
           [''react''] None))) = 2"
  by (simp add: dedupeModules_def Let_def plugins_or_empty_def empty_configuration_def
      instanceof_def new_DuplicatePackageCheckerPlugin_def)

text \<open>
  Claim C3, amended. After two calls of \<open>dedupeModules\<close> (with any module lists and
  folders) the plugins list holds \<open>max 1 n\<close> instances of the duplicate package checker,
  \<open>n\<close> the number it held before the first call: exactly one when it held none or one. The
  second call leaves the plugins list of the first as it is.
\<close>

theorem dedupeModules_twice_one_checker:
  "length (filter (\<lambda>p. instanceof p DuplicatePackageCheckerPlugin)
     (plugins_or_empty (dedupeModules E (dedupeModules E config mods folder) mods' folder')))
   = max 1 (length (filter (\<lambda>p. instanceof p DuplicatePackageCheckerPlugin) (plugins_or_empty config))) \<and>
   plugins (dedupeModules E (dedupeModules E config mods folder) mods' folder')
   = plugins (dedupeModules E config mods folder) \<and>
   (length (filter (\<lambda>p. instanceof p DuplicatePackageCheckerPlugin) (plugins_or_empty config)) \<le> 1 \<longrightarrow>
    length (filter (\<lambda>p. instanceof p DuplicatePackageCheckerPlugin)
      (plugins_or_empty (dedupeModules E (dedupeModules E config mods folder) mods' folder'))) = 1)"
proof -
  have a: "length (filter (\<lambda>p. instanceof p DuplicatePackageCheckerPlugin)
     (plugins_or_empty (dedupeModules E (dedupeModules E config mods folder) mods' folder')))
   = max 1 (length (filter (\<lambda>p. instanceof p DuplicatePackageCheckerPlugin) (plugins_or_empty config)))"
    by (simp add: count_checkers_dedupeModules)
  have b: "plugins (dedupeModules E (dedupeModules E config mods folder) mods' folder')
      = plugins (dedupeModules E config mods folder)"
  proof -
    obtain qs where qs: "plugins (dedupeModules E config mods folder) = Some qs"
      by (simp add: plugins_dedupeModules)
    then have "plugins_or_empty (dedupeModules E config mods folder) = qs"
      by (simp add: plugins_or_empty_def)
    moreover from this have "list_ex (\<lambda>p. instanceof p DuplicatePackageCheckerPlugin) qs"
      using checker_after_dedupeModules [of E config mods folder] by simp
    ultimately show ?thesis
      using qs by (simp add: plugins_dedupeModules [of E "dedupeModules E config mods folder"])
  qed
  from a b show ?thesis by simp
qed

theorem dedupeModules_twice_one_checker_witness:
  "plugins
     (dedupeModules \<lparr>path_resolve = concat, path_join = concat, getEntries = id\<rparr>
        (dedupeModules \<lparr>path_resolve = concat, path_join = concat, getEntries = id\<rparr>
           empty_configuration [''react''] None)
        [''react''] None) = Some [new_DuplicatePackageCheckerPlugin] \<and>
   length (filter (\<lambda>p. instanceof p DuplicatePackageCheckerPlugin)
     (plugins_or_empty
        (dedupeModules \<lparr>path_resolve = concat, path_join = concat, getEntries = id\<rparr>
           (dedupeModules \<lparr>path_resolve = concat, path_join = concat, getEntries = id\<rparr>
              empty_configuration [''react''] None)
           [''react''] None))) = 1"
  using dedupeModules_twice_one_checker
    [of "\<lparr>path_resolve = concat, path_join = concat, getEntries = id\<rparr>"
      empty_configuration "[''react'']" None "[''react'']" None]
  by (simp add: dedupeModules_def Let_def plugins_or_empty_def empty_configuration_def
      instanceof_def new_DuplicatePackageCheckerPlugin_def)

section \<open>Pushing rules\<close>

lemma push_rule_declared:
  "module config = Some m \<Longrightarrow> rules m = Some rs \<Longrightarrow>
     push_rule r config = Returned (config\<lparr>module := Some (m\<lparr>rules := Some (rs @ [r])\<rparr>)\<rparr>)"
  by (simp add: push_rule_def)

lemma push_rule_undeclared:
  "module config = Some m \<Longrightarrow> rules m = None \<Longrightarrow> push_rule r config = Raised TypeError config"
  by (simp add: push_rule_def)

lemma rules_declared_init_module: "rules_declared (init_module config) = rules_declared config"
  by (simp add: rules_declared_def init_module_def split: option.splits)

lemma rules_or_empty_init_module: "rules_or_empty (init_module config) = rules_or_empty config"
  by (simp add: rules_or_empty_def init_module_def split: option.splits)

lemma module_init_module: "module (init_module config) \<noteq> None"
  by (simp add: init_module_def)

lemma init_module_idem: "init_module (init_module config) = init_module config"
  by (simp add: init_module_def)

lemma push_rule_after_init:
  "rules_declared config \<Longrightarrow>
     \<exists>c'. push_rule r (init_module config) = Returned c' \<and> rules_declared c' \<and> module c' \<noteq> None \<and>
       init_module c' = c' \<and>
       rules_or_empty c' = rules_or_empty config @ [r] \<and>
       c'\<lparr>module := module config\<rparr> = config"
  by (cases "module config")
     (auto simp: push_rule_def init_module_def rules_declared_def rules_or_empty_def)

lemma push_rule_returned:
  "module config \<noteq> None \<Longrightarrow> rules_declared config \<Longrightarrow>
     \<exists>c'. push_rule r config = Returned c' \<and> rules_declared c' \<and> module c' \<noteq> None \<and>
       rules_or_empty c' = rules_or_empty config @ [r] \<and>
       c'\<lparr>module := module config\<rparr> = config"
  by (auto simp: push_rule_def rules_declared_def rules_or_empty_def)

lemma push_rule_raises:
  "\<not> rules_declared config \<Longrightarrow> push_rule r (init_module config) = Raised TypeError (init_module config)"
  by (auto simp: push_rule_def init_module_def rules_declared_def split: option.splits)


lemma final_with_options: "final (with_options opts x) = (final x, opts)"
  by (cases x) simp_all

lemma returned_with_options: "returned (with_options opts x) = returned x"
  by (cases x) simp_all

lemma entry_two_pushes: "entry (final (and_then (push_rule r1 c) (push_rule r2))) = entry c"
  by (simp add: push_rule_def split: option.splits)

lemma resolve_two_pushes: "resolve (final (and_then (push_rule r1 c) (push_rule r2))) = resolve c"
  by (simp add: push_rule_def split: option.splits)

lemma module_final_push: "(module (final (push_rule r c)) = None) = (module c = None)"
  by (simp add: push_rule_def split: option.splits)

lemma module_two_pushes:
  "module c \<noteq> None \<Longrightarrow> module (final (and_then (push_rule r1 c) (push_rule r2))) \<noteq> None"
proof (cases "push_rule r1 c")
  case (Returned a)
  assume "module c \<noteq> None"
  then have "module a \<noteq> None"
    using module_final_push [of r1 c] Returned by simp
  then show ?thesis
    using module_final_push [of r2 a] Returned by simp
next
  case (Raised e a)
  assume "module c \<noteq> None"
  then show ?thesis
    using module_final_push [of r1 c] Raised by simp
qed

lemma returned_two_pushes:
  "returned (and_then (push_rule r1 (init_module c)) (push_rule r2)) = rules_declared c"
  by (auto simp: push_rule_def init_module_def rules_declared_def split: option.splits)

lemma rules_two_pushes:
  "rules_declared c \<Longrightarrow>
     rules_or_empty (final (and_then (push_rule r1 (init_module c)) (push_rule r2)))
       = rules_or_empty c @ [r1, r2]"
  by (auto simp: push_rule_def init_module_def rules_declared_def rules_or_empty_def
      split: option.splits)

lemma entry_init_module: "entry (init_module c) = entry c"
  by (simp add: init_module_def)

lemma resolve_init_module: "resolve (init_module c) = resolve c"
  by (simp add: init_module_def)

lemma returned_useCss: "returned (useCss config options) = rules_declared config"
  by (simp add: useCss_def Let_def returned_with_options returned_two_pushes)

section \<open>Properties of useSourceMap\<close>

lemma returned_useSourceMap: "returned (useSourceMap config dev) = (dev \<longrightarrow> rules_declared config)"
  by (auto simp: useSourceMap_def push_rule_def init_module_def rules_declared_def
      split: option.splits)

lemma rules_useSourceMap_raised:
  "\<not> rules_declared config \<Longrightarrow> rules_or_empty (final (useSourceMap config True)) = rules_or_empty config"
  by (auto simp: useSourceMap_def push_rule_def init_module_def rules_declared_def rules_or_empty_def
      split: option.splits)

text \<open>
  On a module record without a rules list the development branch sets \<open>devtool\<close> and then
  raises at \<^verbatim>\<open>config.module.rules.push\<close>: no rule is appended.
\<close>

theorem useSourceMap_undeclared_rules_counterexample:
  "useSourceMap (empty_configuration\<lparr>module := Some \<lparr>rules = None\<rparr>\<rparr> :: unit Configuration) True
     = Raised TypeError
         (empty_configuration\<lparr>devtool := Some (DevtoolString ''cheap-module-source-map''),
            module := Some \<lparr>rules = None\<rparr>\<rparr>)"
  by (simp add: useSourceMap_def init_module_def push_rule_def empty_configuration_def)

text \<open>
  Claim C5, amended. For every configuration whose module record, when there is one, has a
  rules list, \<open>useSourceMap\<close> with the development flag returns, with \<open>devtool\<close> set to
  \<^verbatim>\<open>cheap-module-source-map\<close> and the one rule \<open>source_map_rule\<close> (stage \<open>Pre\<close>, testing for
  the extension \<^verbatim>\<open>js\<close>) appended to the rules; on a module record without a rules list it
  raises and appends nothing. For every configuration, \<open>devtool\<close> is set
  to that value whether the call returns or raises, and without the flag the call returns
  with \<open>devtool\<close> set to \<^verbatim>\<open>source-map\<close> and nothing else changed.
\<close>

theorem useSourceMap_selects_mode:
  "(rules_declared config \<longrightarrow>
      (\<exists>c'. useSourceMap config True = Returned c' \<and>
         devtool c' = Some (DevtoolString ''cheap-module-source-map'') \<and>
         module c' \<noteq> None \<and> rules_declared c' \<and>
         rules_or_empty c' = rules_or_empty config @ [source_map_rule])) \<and>
   (\<not> rules_declared config \<longrightarrow>
      \<not> returned (useSourceMap config True) \<and>
      rules_or_empty (final (useSourceMap config True)) = rules_or_empty config) \<and>
   enforce source_map_rule = Some Pre \<and>
   test source_map_rule = Extensions [''js''] \<and>
   devtool (final (useSourceMap config True)) = Some (DevtoolString ''cheap-module-source-map'') \<and>
   useSourceMap config False = Returned (config\<lparr>devtool := Some (DevtoolString ''source-map'')\<rparr>) \<and>
   rules_or_empty (final (useSourceMap config False)) = rules_or_empty config \<and>
   module (final (useSourceMap config False)) = module config"
proof (intro conjI impI)
  let ?c1 = "config\<lparr>devtool := Some (DevtoolString ''cheap-module-source-map'')\<rparr>"
  assume "rules_declared config"
  then have "rules_declared ?c1" by (simp add: rules_declared_def)
  from push_rule_after_init [OF this, of source_map_rule]
  obtain c' where c': "push_rule source_map_rule (init_module ?c1) = Returned c'"
    "rules_declared c'" "module c' \<noteq> None"
    "rules_or_empty c' = rules_or_empty ?c1 @ [source_map_rule]"
    "c'\<lparr>module := module ?c1\<rparr> = ?c1"
    by blast
  have "devtool (c'\<lparr>module := module ?c1\<rparr>) = devtool ?c1"
    using c'(5) by simp
  then have "devtool c' = Some (DevtoolString ''cheap-module-source-map'')" by simp
  moreover have "rules_or_empty ?c1 = rules_or_empty config" by (simp add: rules_or_empty_def)
  ultimately show "\<exists>c'. useSourceMap config True = Returned c' \<and>
         devtool c' = Some (DevtoolString ''cheap-module-source-map'') \<and>
         module c' \<noteq> None \<and> rules_declared c' \<and>
         rules_or_empty c' = rules_or_empty config @ [source_map_rule]"
    using c' by (simp add: useSourceMap_def)
next
  assume h: "\<not> rules_declared config"
  show "\<not> returned (useSourceMap config True)"
    using h by (simp add: returned_useSourceMap)
  show "rules_or_empty (final (useSourceMap config True)) = rules_or_empty config"
    using h by (rule rules_useSourceMap_raised)
next
  show "enforce source_map_rule = Some Pre" by (simp add: source_map_rule_def)
next
  show "test source_map_rule = Extensions [''js'']" by (simp add: source_map_rule_def)
next
  show "devtool (final (useSourceMap config True)) = Some (DevtoolString ''cheap-module-source-map'')"
    by (simp add: useSourceMap_def push_rule_def init_module_def split: option.splits)
next
  show "useSourceMap config False = Returned (config\<lparr>devtool := Some (DevtoolString ''source-map'')\<rparr>)"
    by (simp add: useSourceMap_def)
next
  show "rules_or_empty (final (useSourceMap config False)) = rules_or_empty config"
    by (simp add: useSourceMap_def rules_or_empty_def)
next
  show "module (final (useSourceMap config False)) = module config"
    by (simp add: useSourceMap_def)
qed

theorem useSourceMap_selects_mode_witness:
  "rules_declared (empty_configuration :: unit Configuration) \<and>
   useSourceMap (empty_configuration :: unit Configuration) True
     = Returned (empty_configuration\<lparr>devtool := Some (DevtoolString ''cheap-module-source-map''),
         module := Some \<lparr>rules = Some [source_map_rule]\<rparr>\<rparr>) \<and>
   useSourceMap (empty_configuration :: unit Configuration) False
     = Returned (empty_configuration\<lparr>devtool := Some (DevtoolString ''source-map'')\<rparr>)"
  using useSourceMap_selects_mode [of "empty_configuration :: unit Configuration"]
  by (simp add: useSourceMap_def init_module_def push_rule_def empty_configuration_def
      rules_declared_def)

section \<open>Properties of useTypescript and useCss\<close>

lemma typescript_options_entry_update:
  "typescript_options E (config\<lparr>entry := e\<rparr>) options = typescript_options E config options"
  by (simp add: typescript_options_def typescript_defaults_def context_or_app_def)

lemma returned_and_then:
  "returned (and_then x f) = (returned x \<and> returned (f (final x)))"
  by (cases x) simp_all

lemma returned_typescript_resolve:
  "returned (typescript_resolve o' config) = (modules' o' \<noteq> None)"
  by (simp add: typescript_resolve_def Let_def split: option.splits)

lemma returned_typescript_entry:
  "returned (typescript_entry E o' config) = (entryPaths' o' \<noteq> None)"
  by (simp add: typescript_entry_def split: option.splits)

lemma module_final_typescript_resolve:
  "module (final (typescript_resolve o' config)) = module config"
  by (simp add: typescript_resolve_def Let_def split: option.splits)

lemma module_final_typescript_entry:
  "module (final (typescript_entry E o' config)) = module config"
  by (simp add: typescript_entry_def split: option.splits)

lemma returned_typescript_rules:
  "returned (typescript_rules o' config) = rules_declared config"
  by (simp add: typescript_rules_def returned_two_pushes)

lemma returned_useTypescript:
  "returned (useTypescript E config options) =
     (modules' (typescript_options E config options) \<noteq> None \<and>
      entryPaths' (typescript_options E config options) \<noteq> None \<and>
      rules_declared config)"
  by (cases "modules' (typescript_options E config options)";
      cases "entryPaths' (typescript_options E config options)")
     (simp_all add: useTypescript_def Let_def typescript_resolve_def typescript_entry_def
        returned_with_options returned_typescript_rules rules_declared_def)

lemma useTypescript_returned_state:
  assumes "rules_declared config"
    and "modules' (typescript_options E config options) = Some ms'"
    and "entryPaths' (typescript_options E config options) = Some ps"
  shows "\<exists>c'. useTypescript E config options = Returned (c', options) \<and>
     entry c' = Some (getEntries E (map (\<lambda>p. path_resolve E [p, ENTRY_FILES]) ps)) \<and>
     resolve c' = Some ((resolve_or_empty config)
       \<lparr>extensions := Some ((case extensions (resolve_or_empty config) of None \<Rightarrow> [] | Some es \<Rightarrow> es)
            @ [''.ts'', ''.tsx'']),
        modules := Some ((case modules (resolve_or_empty config) of None \<Rightarrow> [] | Some ms \<Rightarrow> ms) @ ms')\<rparr>) \<and>
     module c' \<noteq> None \<and>
     rules_or_empty c' =
       rules_or_empty config @ [tslint_rule (typescript_options E config options), ts_rule]"
proof (cases "module config")
  case None
  with assms show ?thesis
    by (simp add: useTypescript_def Let_def typescript_resolve_def typescript_entry_def
        typescript_rules_def push_rule_def init_module_def rules_or_empty_def)
next
  case (Some m)
  with assms(1) obtain rs where "rules m = Some rs"
    by (auto simp: rules_declared_def)
  with Some assms show ?thesis
    by (simp add: useTypescript_def Let_def typescript_resolve_def typescript_entry_def
        typescript_rules_def push_rule_def init_module_def rules_or_empty_def)
qed

lemma useCss_returned_state:
  assumes "rules_declared config"
  shows "\<exists>c'. useCss config options = Returned (c', options) \<and>
     module c' \<noteq> None \<and>
     rules_or_empty c' = rules_or_empty config @ [css_rule, image_rule (css_options options)]"
proof (cases "module config")
  case None
  then show ?thesis
    by (simp add: useCss_def Let_def push_rule_def init_module_def rules_or_empty_def)
next
  case (Some m)
  with assms obtain rs where "rules m = Some rs"
    by (auto simp: rules_declared_def)
  with Some show ?thesis
    by (simp add: useCss_def Let_def push_rule_def init_module_def rules_or_empty_def)
qed

lemma options_after_useTypescript: "snd (final (useTypescript E config options)) = options"
  by (simp add: useTypescript_def Let_def final_with_options)

lemma options_after_useCss: "snd (final (useCss config options)) = options"
  by (simp add: useCss_def Let_def final_with_options)

text \<open>
  Claim C6. Whenever \<open>useTypescript\<close> returns, the entry field holds the result of
  \<open>getEntries\<close> on the entry search paths of the merged options, each resolved against the
  pattern \<open>ENTRY_FILES\<close>, whatever it held before: on a configuration that differs only in
  its entry field the call returns with the same entry. The call returns exactly when the
  merged \<^verbatim>\<open>modules\<close> and \<^verbatim>\<open>entryPaths\<close> are not \<^verbatim>\<open>undefined\<close> and the module record, if there
  is one, has a rules list.
\<close>

theorem useTypescript_replaces_entry:
  "(\<forall>c' opts'. useTypescript E config options = Returned (c', opts') \<longrightarrow>
      (\<exists>ps. entryPaths' (typescript_options E config options) = Some ps \<and>
         entry c' = Some (getEntries E (map (\<lambda>p. path_resolve E [p, ENTRY_FILES]) ps)))) \<and>
   (\<forall>e c' opts'. useTypescript E config options = Returned (c', opts') \<longrightarrow>
      (\<exists>c''. useTypescript E (config\<lparr>entry := e\<rparr>) options = Returned (c'', opts') \<and>
         entry c'' = entry c')) \<and>
   returned (useTypescript E config options) =
     (modules' (typescript_options E config options) \<noteq> None \<and>
      entryPaths' (typescript_options E config options) \<noteq> None \<and>
      rules_declared config)"
proof (intro conjI allI impI)
  fix c' opts'
  assume r: "useTypescript E config options = Returned (c', opts')"
  then have "returned (useTypescript E config options)" by simp
  then obtain ms' ps where h: "rules_declared config"
      "modules' (typescript_options E config options) = Some ms'"
      "entryPaths' (typescript_options E config options) = Some ps"
    by (auto simp: returned_useTypescript)
  from useTypescript_returned_state [OF h] r
  have "entry c' = Some (getEntries E (map (\<lambda>p. path_resolve E [p, ENTRY_FILES]) ps))"
    by auto
  with h(3)
  show "\<exists>ps. entryPaths' (typescript_options E config options) = Some ps \<and>
         entry c' = Some (getEntries E (map (\<lambda>p. path_resolve E [p, ENTRY_FILES]) ps))"
    by simp
next
  fix e c' opts'
  assume r: "useTypescript E config options = Returned (c', opts')"
  then have "returned (useTypescript E config options)" by simp
  then obtain ms' ps where h: "rules_declared config"
      "modules' (typescript_options E config options) = Some ms'"
      "entryPaths' (typescript_options E config options) = Some ps"
    by (auto simp: returned_useTypescript)
  have h': "rules_declared (config\<lparr>entry := e\<rparr>)"
      "modules' (typescript_options E (config\<lparr>entry := e\<rparr>) options) = Some ms'"
      "entryPaths' (typescript_options E (config\<lparr>entry := e\<rparr>) options) = Some ps"
    using h by (simp_all add: typescript_options_entry_update rules_declared_def)
  from useTypescript_returned_state [OF h] r
  have 1: "entry c' = Some (getEntries E (map (\<lambda>p. path_resolve E [p, ENTRY_FILES]) ps))"
    and 2: "opts' = options"
    by auto
  from useTypescript_returned_state [OF h'] 1 2
  show "\<exists>c''. useTypescript E (config\<lparr>entry := e\<rparr>) options = Returned (c'', opts') \<and>
         entry c'' = entry c'"
    by auto
next
  show "returned (useTypescript E config options) =
     (modules' (typescript_options E config options) \<noteq> None \<and>
      entryPaths' (typescript_options E config options) \<noteq> None \<and>
      rules_declared config)"
    by (rule returned_useTypescript)
qed


theorem useTypescript_replaces_entry_witness:
  "\<exists>c'. useTypescript \<lparr>path_resolve = concat, path_join = concat, getEntries = id\<rparr>
       (empty_configuration\<lparr>context := Some ''/proj/app'', entry := Some [''old.js'']\<rparr>) None
       = Returned (c', None) \<and>
      entry c' = Some [''/proj/app***.{js,mjs,jsx,ts,tsx}'']"
proof -
  let ?E = "\<lparr>path_resolve = concat, path_join = concat, getEntries = id\<rparr>
    :: string list collaborators"
  let ?C = "empty_configuration\<lparr>context := Some ''/proj/app'', entry := Some [''old.js'']\<rparr>
    :: string list Configuration"
  note t = useTypescript_replaces_entry [of ?E ?C None]
  have v: "typescript_options ?E ?C None =
      \<lparr>entryPaths' = Some [''/proj/app**''], modules' = Some [''./node_modules''],
       tsConfigFile' = Some ''tsconfig.json''\<rparr>"
    by (simp add: empty_configuration_def typescript_options_def typescript_defaults_def
        spread_typescript_def context_or_app_def)
  have d: "rules_declared ?C"
    by (simp add: rules_declared_def empty_configuration_def)
  have "modules' (typescript_options ?E ?C None) \<noteq> None"
    and "entryPaths' (typescript_options ?E ?C None) \<noteq> None"
    by (simp_all add: v)
  with d have "returned (useTypescript ?E ?C None)"
    using t [THEN conjunct2, THEN conjunct2] by blast
  then obtain c' opts' where r: "useTypescript ?E ?C None = Returned (c', opts')"
    by (cases "useTypescript ?E ?C None") auto
  have o: "opts' = None"
    using r options_after_useTypescript [of ?E ?C None] by simp
  from t [THEN conjunct1, rule_format, OF r]
  have "entry c' = Some [''/proj/app***.{js,mjs,jsx,ts,tsx}'']"
    by (simp add: v ENTRY_FILES_def)
  with r o show ?thesis by simp
qed

text \<open>
  Claim C4. In the merged options of \<open>useTypescript\<close> and of \<open>useCss\<close> every field that
  is present in the caller's record has the caller's value, taken whole (also the value
  \<^verbatim>\<open>undefined\<close>), and every field that is absent has its default. The operations work with
  the merged values: when \<open>useTypescript\<close> returns, the entry comes from the merged entry
  paths, the merged modules are appended to the resolution modules and the lint rule carries
  the merged config file; when \<open>useCss\<close> returns, the image rule carries the merged image
  path and the negation of the merged optimisation flag. The caller's record is the same
  after the call as before.
\<close>

theorem options_merge_shallow:
  "(\<forall>opt v. options = Some opt \<and> entryPaths opt = Value v \<longrightarrow>
      entryPaths' (typescript_options E config options) = Some v) \<and>
   (\<forall>opt. options = Some opt \<and> entryPaths opt = Undefined \<longrightarrow>
      entryPaths' (typescript_options E config options) = None) \<and>
   (options = None \<or> (\<exists>opt. options = Some opt \<and> entryPaths opt = Absent) \<longrightarrow>
      entryPaths' (typescript_options E config options)
        = Some [path_resolve E [context_or_app config, ''**'']]) \<and>
   (\<forall>opt v. options = Some opt \<and> modules_option opt = Value v \<longrightarrow>
      modules' (typescript_options E config options) = Some v) \<and>
   (\<forall>opt. options = Some opt \<and> modules_option opt = Undefined \<longrightarrow>
      modules' (typescript_options E config options) = None) \<and>
   (options = None \<or> (\<exists>opt. options = Some opt \<and> modules_option opt = Absent) \<longrightarrow>
      modules' (typescript_options E config options) = Some [''./node_modules'']) \<and>
   (\<forall>opt v. options = Some opt \<and> tsConfigFile opt = Value v \<longrightarrow>
      tsConfigFile' (typescript_options E config options) = Some v) \<and>
   (\<forall>opt. options = Some opt \<and> tsConfigFile opt = Undefined \<longrightarrow>
      tsConfigFile' (typescript_options E config options) = None) \<and>
   (options = None \<or> (\<exists>opt. options = Some opt \<and> tsConfigFile opt = Absent) \<longrightarrow>
      tsConfigFile' (typescript_options E config options) = Some ''tsconfig.json'') \<and>
   (\<forall>ps ms. rules_declared config \<and>
      entryPaths' (typescript_options E config options) = Some ps \<and>
      modules' (typescript_options E config options) = Some ms \<longrightarrow>
      (\<exists>c' r. useTypescript E config options = Returned (c', options) \<and>
         entry c' = Some (getEntries E (map (\<lambda>p. path_resolve E [p, ENTRY_FILES]) ps)) \<and>
         resolve c' = Some r \<and>
         modules r = Some ((case modules (resolve_or_empty config) of None \<Rightarrow> [] | Some ms0 \<Rightarrow> ms0) @ ms) \<and>
         rules_or_empty c' = rules_or_empty config @
           [\<lparr>test = Extensions [''ts'', ''tsx''],
             use = [UseLoader ''tslint-loader''
               [(''tsConfigFile'',
                   (case tsConfigFile' (typescript_options E config options) of
                      None \<Rightarrow> OptUndefined | Some f \<Rightarrow> OptString f)),
                (''emitErrors'', OptBool True)]],
             enforce = Some Pre\<rparr>,
            ts_rule])) \<and>
   (\<forall>opt v. css = Some opt \<and> optimizeImages opt = Value v \<longrightarrow>
      optimizeImages' (css_options css) = Some v) \<and>
   (\<forall>opt. css = Some opt \<and> optimizeImages opt = Undefined \<longrightarrow>
      optimizeImages' (css_options css) = None) \<and>
   (css = None \<or> (\<exists>opt. css = Some opt \<and> optimizeImages opt = Absent) \<longrightarrow>
      optimizeImages' (css_options css) = Some True) \<and>
   (\<forall>opt v. css = Some opt \<and> imagePath opt = Value v \<longrightarrow>
      imagePath' (css_options css) = Some v) \<and>
   (\<forall>opt. css = Some opt \<and> imagePath opt = Undefined \<longrightarrow>
      imagePath' (css_options css) = None) \<and>
   (css = None \<or> (\<exists>opt. css = Some opt \<and> imagePath opt = Absent) \<longrightarrow>
      imagePath' (css_options css) = Some ''images'') \<and>
   (rules_declared config' \<longrightarrow>
      (\<exists>c'. useCss config' css = Returned (c', css) \<and>
         rules_or_empty c' = rules_or_empty config' @
           [css_rule,
            \<lparr>test = Extensions [''bmp'', ''gif'', ''jpg'', ''jpeg'', ''png'', ''svg'', ''tif'', ''tiff'', ''webp''],
             use = [UseLoader ''file-loader''
               [(''outputPath'', OptString (template_string (imagePath' (css_options css)) @ ''/'')),
                (''publicPath'', OptString (''/'' @ template_string (imagePath' (css_options css)) @ ''/''))],
              UseLoader ''image-webpack-loader''
               [(''disable'', OptBool (\<not> truthy_bool (optimizeImages' (css_options css))))]],
             enforce = None\<rparr>])) \<and>
   snd (final (useTypescript E config options)) = options \<and>
   snd (final (useCss config' css)) = css"
proof -
  have m: "(\<forall>opt v. options = Some opt \<and> entryPaths opt = Value v \<longrightarrow>
      entryPaths' (typescript_options E config options) = Some v) \<and>
   (\<forall>opt. options = Some opt \<and> entryPaths opt = Undefined \<longrightarrow>
      entryPaths' (typescript_options E config options) = None) \<and>
   (options = None \<or> (\<exists>opt. options = Some opt \<and> entryPaths opt = Absent) \<longrightarrow>
      entryPaths' (typescript_options E config options)
        = Some [path_resolve E [context_or_app config, ''**'']]) \<and>
   (\<forall>opt v. options = Some opt \<and> modules_option opt = Value v \<longrightarrow>
      modules' (typescript_options E config options) = Some v) \<and>
   (\<forall>opt. options = Some opt \<and> modules_option opt = Undefined \<longrightarrow>
      modules' (typescript_options E config options) = None) \<and>
   (options = None \<or> (\<exists>opt. options = Some opt \<and> modules_option opt = Absent) \<longrightarrow>
      modules' (typescript_options E config options) = Some [''./node_modules'']) \<and>
   (\<forall>opt v. options = Some opt \<and> tsConfigFile opt = Value v \<longrightarrow>
      tsConfigFile' (typescript_options E config options) = Some v) \<and>
   (\<forall>opt. options = Some opt \<and> tsConfigFile opt = Undefined \<longrightarrow>
      tsConfigFile' (typescript_options E config options) = None) \<and>
   (options = None \<or> (\<exists>opt. options = Some opt \<and> tsConfigFile opt = Absent) \<longrightarrow>
      tsConfigFile' (typescript_options E config options) = Some ''tsconfig.json'')"
    by (cases options)
       (auto simp: typescript_options_def typescript_defaults_def spread_typescript_def)
  have t: "\<forall>ps ms. rules_declared config \<and>
      entryPaths' (typescript_options E config options) = Some ps \<and>
      modules' (typescript_options E config options) = Some ms \<longrightarrow>
      (\<exists>c' r. useTypescript E config options = Returned (c', options) \<and>
         entry c' = Some (getEntries E (map (\<lambda>p. path_resolve E [p, ENTRY_FILES]) ps)) \<and>
         resolve c' = Some r \<and>
         modules r = Some ((case modules (resolve_or_empty config) of None \<Rightarrow> [] | Some ms0 \<Rightarrow> ms0) @ ms) \<and>
         rules_or_empty c' = rules_or_empty config @
           [\<lparr>test = Extensions [''ts'', ''tsx''],
             use = [UseLoader ''tslint-loader''
               [(''tsConfigFile'',
                   (case tsConfigFile' (typescript_options E config options) of
                      None \<Rightarrow> OptUndefined | Some f \<Rightarrow> OptString f)),
                (''emitErrors'', OptBool True)]],
             enforce = Some Pre\<rparr>,
            ts_rule])"
  proof (intro allI impI)
    fix ps ms
    assume h: "rules_declared config \<and>
      entryPaths' (typescript_options E config options) = Some ps \<and>
      modules' (typescript_options E config options) = Some ms"
    from useTypescript_returned_state [of config E options ms ps] h
    obtain c' where c': "useTypescript E config options = Returned (c', options)"
      "entry c' = Some (getEntries E (map (\<lambda>p. path_resolve E [p, ENTRY_FILES]) ps))"
      "resolve c' = Some ((resolve_or_empty config)
         \<lparr>extensions := Some ((case extensions (resolve_or_empty config) of None \<Rightarrow> [] | Some es \<Rightarrow> es)
              @ [''.ts'', ''.tsx'']),
          modules := Some ((case modules (resolve_or_empty config) of None \<Rightarrow> [] | Some ms \<Rightarrow> ms) @ ms)\<rparr>)"
      "rules_or_empty c' =
         rules_or_empty config @ [tslint_rule (typescript_options E config options), ts_rule]"
      by blast
    show "\<exists>c' r. useTypescript E config options = Returned (c', options) \<and>
         entry c' = Some (getEntries E (map (\<lambda>p. path_resolve E [p, ENTRY_FILES]) ps)) \<and>
         resolve c' = Some r \<and>
         modules r = Some ((case modules (resolve_or_empty config) of None \<Rightarrow> [] | Some ms0 \<Rightarrow> ms0) @ ms) \<and>
         rules_or_empty c' = rules_or_empty config @
           [\<lparr>test = Extensions [''ts'', ''tsx''],
             use = [UseLoader ''tslint-loader''
               [(''tsConfigFile'',
                   (case tsConfigFile' (typescript_options E config options) of
                      None \<Rightarrow> OptUndefined | Some f \<Rightarrow> OptString f)),
                (''emitErrors'', OptBool True)]],
             enforce = Some Pre\<rparr>,
            ts_rule]"
      using c' by (simp add: tslint_rule_def)
  qed
  have c: "(\<forall>opt v. css = Some opt \<and> optimizeImages opt = Value v \<longrightarrow>
      optimizeImages' (css_options css) = Some v) \<and>
   (\<forall>opt. css = Some opt \<and> optimizeImages opt = Undefined \<longrightarrow>
      optimizeImages' (css_options css) = None) \<and>
   (css = None \<or> (\<exists>opt. css = Some opt \<and> optimizeImages opt = Absent) \<longrightarrow>
      optimizeImages' (css_options css) = Some True) \<and>
   (\<forall>opt v. css = Some opt \<and> imagePath opt = Value v \<longrightarrow>
      imagePath' (css_options css) = Some v) \<and>
   (\<forall>opt. css = Some opt \<and> imagePath opt = Undefined \<longrightarrow>
      imagePath' (css_options css) = None) \<and>
   (css = None \<or> (\<exists>opt. css = Some opt \<and> imagePath opt = Absent) \<longrightarrow>
      imagePath' (css_options css) = Some ''images'')"
    by (cases css) (auto simp: css_options_def css_defaults_def spread_css_def)
  have u: "rules_declared config' \<longrightarrow>
      (\<exists>c'. useCss config' css = Returned (c', css) \<and>
         rules_or_empty c' = rules_or_empty config' @
           [css_rule,
            \<lparr>test = Extensions [''bmp'', ''gif'', ''jpg'', ''jpeg'', ''png'', ''svg'', ''tif'', ''tiff'', ''webp''],
             use = [UseLoader ''file-loader''
               [(''outputPath'', OptString (template_string (imagePath' (css_options css)) @ ''/'')),
                (''publicPath'', OptString (''/'' @ template_string (imagePath' (css_options css)) @ ''/''))],
              UseLoader ''image-webpack-loader''
               [(''disable'', OptBool (\<not> truthy_bool (optimizeImages' (css_options css))))]],
             enforce = None\<rparr>])"
    using useCss_returned_state [of config' css] by (auto simp: image_rule_def)
  have ts: "snd (final (useTypescript E config options)) = options"
    by (rule options_after_useTypescript)
  have cs: "snd (final (useCss config' css)) = css"
    by (rule options_after_useCss)
  note m1 = m [THEN conjunct1]
  note m2 = m [THEN conjunct2, THEN conjunct1]
  note m3 = m [THEN conjunct2, THEN conjunct2, THEN conjunct1]
  note m4 = m [THEN conjunct2, THEN conjunct2, THEN conjunct2, THEN conjunct1]
  note m5 = m [THEN conjunct2, THEN conjunct2, THEN conjunct2, THEN conjunct2, THEN conjunct1]
  note m6 = m [THEN conjunct2, THEN conjunct2, THEN conjunct2, THEN conjunct2, THEN conjunct2,
    THEN conjunct1]
  note m7 = m [THEN conjunct2, THEN conjunct2, THEN conjunct2, THEN conjunct2, THEN conjunct2,
    THEN conjunct2, THEN conjunct1]
  note m8 = m [THEN conjunct2, THEN conjunct2, THEN conjunct2, THEN conjunct2, THEN conjunct2,
    THEN conjunct2, THEN conjunct2, THEN conjunct1]
  note m9 = m [THEN conjunct2, THEN conjunct2, THEN conjunct2, THEN conjunct2, THEN conjunct2,
    THEN conjunct2, THEN conjunct2, THEN conjunct2]
  note c1 = c [THEN conjunct1]
  note c2 = c [THEN conjunct2, THEN conjunct1]
  note c3 = c [THEN conjunct2, THEN conjunct2, THEN conjunct1]
  note c4 = c [THEN conjunct2, THEN conjunct2, THEN conjunct2, THEN conjunct1]
  note c5 = c [THEN conjunct2, THEN conjunct2, THEN conjunct2, THEN conjunct2, THEN conjunct1]
  note c6 = c [THEN conjunct2, THEN conjunct2, THEN conjunct2, THEN conjunct2, THEN conjunct2]
  show ?thesis
    by (intro conjI)
       (rule m1, rule m2, rule m3, rule m4, rule m5, rule m6, rule m7, rule m8, rule m9, rule t,
        rule c1, rule c2, rule c3, rule c4, rule c5, rule c6, rule u, rule ts, rule cs)
qed

theorem options_merge_shallow_witness:
  "entryPaths' (typescript_options \<lparr>path_resolve = concat, path_join = concat, getEntries = id\<rparr>
      (empty_configuration :: string list Configuration)
      (Some \<lparr>entryPaths = Value [''src/''], modules_option = Absent, tsConfigFile = Undefined\<rparr>))
     = Some [''src/''] \<and>
   modules' (typescript_options \<lparr>path_resolve = concat, path_join = concat, getEntries = id\<rparr>
      (empty_configuration :: string list Configuration)
      (Some \<lparr>entryPaths = Value [''src/''], modules_option = Absent, tsConfigFile = Undefined\<rparr>))
     = Some [''./node_modules''] \<and>
   tsConfigFile' (typescript_options \<lparr>path_resolve = concat, path_join = concat, getEntries = id\<rparr>
      (empty_configuration :: string list Configuration)
      (Some \<lparr>entryPaths = Value [''src/''], modules_option = Absent, tsConfigFile = Undefined\<rparr>))
     = None \<and>
   (\<exists>c'. useTypescript \<lparr>path_resolve = concat, path_join = concat, getEntries = id\<rparr>
       (empty_configuration :: string list Configuration)
       (Some \<lparr>entryPaths = Value [''src/''], modules_option = Absent, tsConfigFile = Undefined\<rparr>)
      = Returned (c', Some \<lparr>entryPaths = Value [''src/''], modules_option = Absent, tsConfigFile = Undefined\<rparr>) \<and>
      entry c' = Some [''src/*.{js,mjs,jsx,ts,tsx}'']) \<and>
   imagePath' (css_options (Some \<lparr>optimizeImages = Undefined, imagePath = Value ''img''\<rparr>)) = Some ''img'' \<and>
   optimizeImages' (css_options (Some \<lparr>optimizeImages = Undefined, imagePath = Value ''img''\<rparr>)) = None \<and>
   (\<exists>c'. useCss (empty_configuration :: string list Configuration)
       (Some \<lparr>optimizeImages = Undefined, imagePath = Value ''img''\<rparr>)
      = Returned (c', Some \<lparr>optimizeImages = Undefined, imagePath = Value ''img''\<rparr>) \<and>
      rules_or_empty c' =
        [css_rule,
         \<lparr>test = Extensions [''bmp'', ''gif'', ''jpg'', ''jpeg'', ''png'', ''svg'', ''tif'', ''tiff'', ''webp''],
          use = [UseLoader ''file-loader''
                   [(''outputPath'', OptString ''img/''), (''publicPath'', OptString ''/img/'')],
                 UseLoader ''image-webpack-loader'' [(''disable'', OptBool True)]],
          enforce = None\<rparr>])"
proof -
  let ?E = "\<lparr>path_resolve = concat, path_join = concat, getEntries = id\<rparr>
    :: string list collaborators"
  let ?C = "empty_configuration :: string list Configuration"
  let ?T = "Some \<lparr>entryPaths = Value [''src/''], modules_option = Absent, tsConfigFile = Undefined\<rparr>"
  let ?S = "Some \<lparr>optimizeImages = Undefined, imagePath = Value ''img''\<rparr>"
  note t = options_merge_shallow [of ?T E config ?S config' for E config config']
  have d: "rules_declared ?C"
    by (simp add: rules_declared_def empty_configuration_def)
  have e: "rules_or_empty ?C = []"
    by (simp add: rules_or_empty_def empty_configuration_def)
  have m0: "modules (resolve_or_empty ?C) = None"
    by (simp add: resolve_or_empty_def empty_resolve_def empty_configuration_def)
  have 1: "entryPaths' (typescript_options ?E ?C ?T) = Some [''src/'']"
    using t [of ?E ?C ?C] by simp
  have 2: "modules' (typescript_options ?E ?C ?T) = Some [''./node_modules'']"
    using t [of ?E ?C ?C] by simp
  have 3: "tsConfigFile' (typescript_options ?E ?C ?T) = None"
    using t [of ?E ?C ?C] by simp
  have 4: "\<exists>c'. useTypescript ?E ?C ?T = Returned (c', ?T) \<and>
      entry c' = Some [''src/*.{js,mjs,jsx,ts,tsx}'']"
    using t [of ?E ?C ?C] d 1 2 by (simp add: ENTRY_FILES_def) blast
  have 5: "imagePath' (css_options ?S) = Some ''img''"
    using t [of ?E ?C ?C] by simp
  have 6: "optimizeImages' (css_options ?S) = None"
    using t [of ?E ?C ?C] by simp
  have 7: "\<exists>c'. useCss ?C ?S = Returned (c', ?S) \<and>
      rules_or_empty c' =
        [css_rule,
         \<lparr>test = Extensions [''bmp'', ''gif'', ''jpg'', ''jpeg'', ''png'', ''svg'', ''tif'', ''tiff'', ''webp''],
          use = [UseLoader ''file-loader''
                   [(''outputPath'', OptString ''img/''), (''publicPath'', OptString ''/img/'')],
                 UseLoader ''image-webpack-loader'' [(''disable'', OptBool True)]],
          enforce = None\<rparr>]"
    using t [of ?E ?C ?C] d e 5 6 by (simp add: template_string_def truthy_bool_def)
  from 1 2 3 4 5 6 7 show ?thesis by (intro conjI)
qed

section \<open>Properties of getDedupeAliases and of the alias merge\<close>

lemma fold_assign_lookup:
  "fold (\<lambda>m al. assign_property m (f m) al) ms al0 k =
     (if k \<in> set ms \<and> k \<noteq> ''__proto__'' then Some (f k) else al0 k)"
  by (induction ms arbitrary: al0) (auto simp: assign_property_def)

lemma getDedupeAliases_lookup:
  "getDedupeAliases E mods folder k =
     (if k \<in> set mods \<and> k \<noteq> ''__proto__''
      then Some (path_resolve E [path_join E [folder_or_default folder, k]]) else None)"
  by (simp add: getDedupeAliases_def fold_assign_lookup)

lemma getDedupeAliases_default_folder:
  "getDedupeAliases E mods (Some (folder_or_default folder)) = getDedupeAliases E mods folder"
  by (simp add: getDedupeAliases_def folder_or_default_def)

lemma dom_getDedupeAliases: "dom (getDedupeAliases E mods folder) = set mods - {''__proto__''}"
  by (auto simp: dom_def getDedupeAliases_lookup)

text \<open>
  The module name \<^verbatim>\<open>__proto__\<close> gets no key: the assignment reaches the inherited setter.
\<close>

theorem getDedupeAliases_proto_counterexample:
  "getDedupeAliases \<lparr>path_resolve = concat, path_join = concat, getEntries = id\<rparr>
      [''__proto__''] (Some ''/deps/'') ''__proto__'' = None"
  by (simp add: getDedupeAliases_def assign_property_def)

text \<open>
  Claim C8, amended. \<open>getDedupeAliases\<close> is a function of the module names, the folder and
  the path functions of the process: it builds a new mapping and writes nothing else. The
  keys of the mapping are the module names other than \<^verbatim>\<open>__proto__\<close>, each mapped to the
  resolved path of the folder joined with the name; an occurrence of such a name at the end
  of the list overwrites what earlier occurrences stored, so the last occurrence decides the
  value; an occurrence of \<^verbatim>\<open>__proto__\<close> changes nothing.
\<close>

theorem getDedupeAliases_maps_each_module:
  "getDedupeAliases E mods folder k =
     (if k \<in> set mods \<and> k \<noteq> ''__proto__''
      then Some (path_resolve E [path_join E [folder_or_default folder, k]]) else None) \<and>
   dom (getDedupeAliases E mods folder) = set mods - {''__proto__''} \<and>
   (m \<noteq> ''__proto__'' \<longrightarrow>
      getDedupeAliases E (mods @ [m]) folder =
        (getDedupeAliases E mods folder)(m \<mapsto> path_resolve E [path_join E [folder_or_default folder, m]]) \<and>
      getDedupeAliases E (mods @ m # mods') folder m =
        Some (path_resolve E [path_join E [folder_or_default folder, m]])) \<and>
   getDedupeAliases E (mods @ [''__proto__'']) folder = getDedupeAliases E mods folder \<and>
   getDedupeAliases E [] folder = Map.empty"
proof (intro conjI impI)
  show "getDedupeAliases E mods folder k =
     (if k \<in> set mods \<and> k \<noteq> ''__proto__''
      then Some (path_resolve E [path_join E [folder_or_default folder, k]]) else None)"
    by (rule getDedupeAliases_lookup)
  show "dom (getDedupeAliases E mods folder) = set mods - {''__proto__''}"
    by (rule dom_getDedupeAliases)
  show "getDedupeAliases E (mods @ [''__proto__'']) folder = getDedupeAliases E mods folder"
    by (simp add: getDedupeAliases_def assign_property_def)
  show "getDedupeAliases E [] folder = Map.empty"
    by (simp add: getDedupeAliases_def)
next
  assume "m \<noteq> ''__proto__''"
  then show "getDedupeAliases E (mods @ [m]) folder =
     (getDedupeAliases E mods folder)(m \<mapsto> path_resolve E [path_join E [folder_or_default folder, m]])"
    by (simp add: getDedupeAliases_def assign_property_def)
next
  assume "m \<noteq> ''__proto__''"
  then show "getDedupeAliases E (mods @ m # mods') folder m =
     Some (path_resolve E [path_join E [folder_or_default folder, m]])"
    by (simp add: getDedupeAliases_lookup)
qed

theorem getDedupeAliases_maps_each_module_witness:
  "getDedupeAliases \<lparr>path_resolve = concat, path_join = concat, getEntries = id\<rparr>
      [''react'', ''vue'', ''react''] (Some ''lib/'') ''react'' = Some ''lib/react'' \<and>
   getDedupeAliases \<lparr>path_resolve = concat, path_join = concat, getEntries = id\<rparr>
      [''react'', ''vue'', ''react''] (Some ''lib/'') ''vue'' = Some ''lib/vue'' \<and>
   getDedupeAliases \<lparr>path_resolve = concat, path_join = concat, getEntries = id\<rparr>
      [''react'', ''vue'', ''react''] (Some ''lib/'') ''jquery'' = None \<and>
   getDedupeAliases \<lparr>path_resolve = concat, path_join = concat, getEntries = id\<rparr>
      ([''react'', ''vue''] @ [''react'']) (Some ''lib/'')
     = (getDedupeAliases \<lparr>path_resolve = concat, path_join = concat, getEntries = id\<rparr>
         [''react'', ''vue''] (Some ''lib/''))(''react'' \<mapsto> ''lib/react'')"
proof -
  let ?E = "\<lparr>path_resolve = concat, path_join = concat, getEntries = id\<rparr>
    :: string list collaborators"
  have n: "''react'' \<noteq> ''__proto__''" by simp
  note t = getDedupeAliases_maps_each_module [of ?E _ "Some ''lib/''"]
  have 1: "getDedupeAliases ?E [''react'', ''vue'', ''react''] (Some ''lib/'') ''react'' = Some ''lib/react''"
    using t [of "[''react'', ''vue'', ''react'']" "''react''", THEN conjunct1]
    by (simp add: folder_or_default_def)
  have 2: "getDedupeAliases ?E [''react'', ''vue'', ''react''] (Some ''lib/'') ''vue'' = Some ''lib/vue''"
    using t [of "[''react'', ''vue'', ''react'']" "''vue''", THEN conjunct1]
    by (simp add: folder_or_default_def)
  have 3: "getDedupeAliases ?E [''react'', ''vue'', ''react''] (Some ''lib/'') ''jquery'' = None"
    using t [of "[''react'', ''vue'', ''react'']" "''jquery''", THEN conjunct1]
    by simp
  have 4: "getDedupeAliases ?E ([''react'', ''vue''] @ [''react'']) (Some ''lib/'')
     = (getDedupeAliases ?E [''react'', ''vue''] (Some ''lib/''))(''react'' \<mapsto> ''lib/react'')"
    using t [of "[''react'', ''vue'']" _ "''react''", THEN conjunct2, THEN conjunct2, THEN conjunct1] n
    by (simp add: folder_or_default_def)
  from 1 2 3 4 show ?thesis by (intro conjI)
qed

lemma resolve_dedupeModules:
  "resolve (dedupeModules E config mods folder) =
     Some ((resolve_or_empty config)
       \<lparr>alias := Some (spread_alias (resolve_or_empty config) ++ getDedupeAliases E mods folder)\<rparr>)"
  by (simp add: dedupeModules_def Let_def getDedupeAliases_default_folder)

text \<open>
  Claim C9. On a configuration with an alias mapping \<open>a0\<close>, \<open>dedupeModules\<close> stores an alias
  mapping that agrees with \<open>a0\<close> on every key that is not a key of the newly computed
  aliases and with the new aliases on every key of theirs: the module names other than
  \<^verbatim>\<open>__proto__\<close> map to their new paths, every other key keeps the caller's value. The other
  fields of the resolve record stay.
\<close>

theorem dedupeModules_alias_precedence:
  "resolve config = Some r0 \<and> alias r0 = Some a0 \<longrightarrow>
     (\<exists>r a. resolve (dedupeModules E config mods folder) = Some r \<and> alias r = Some a \<and>
        (\<forall>k. k \<notin> dom (getDedupeAliases E mods folder) \<longrightarrow> a k = a0 k) \<and>
        (\<forall>k. k \<in> dom (getDedupeAliases E mods folder) \<longrightarrow> a k = getDedupeAliases E mods folder k) \<and>
        (\<forall>k. k \<in> set mods \<and> k \<noteq> ''__proto__'' \<longrightarrow>
           a k = Some (path_resolve E [path_join E [folder_or_default folder, k]])) \<and>
        (\<forall>k. k \<notin> set mods \<or> k = ''__proto__'' \<longrightarrow> a k = a0 k) \<and>
        extensions r = extensions r0 \<and> modules r = modules r0)"
proof
  assume h: "resolve config = Some r0 \<and> alias r0 = Some a0"
  let ?new = "getDedupeAliases E mods folder"
  have r: "resolve (dedupeModules E config mods folder) = Some (r0\<lparr>alias := Some (a0 ++ ?new)\<rparr>)"
    using h by (simp add: resolve_dedupeModules resolve_or_empty_def spread_alias_def)
  have a1: "\<forall>k. k \<notin> dom ?new \<longrightarrow> (a0 ++ ?new) k = a0 k"
    by (simp add: map_add_dom_app_simps)
  have a2: "\<forall>k. k \<in> dom ?new \<longrightarrow> (a0 ++ ?new) k = ?new k"
    by (simp add: map_add_dom_app_simps)
  have a3: "\<forall>k. k \<in> set mods \<and> k \<noteq> ''__proto__'' \<longrightarrow>
      (a0 ++ ?new) k = Some (path_resolve E [path_join E [folder_or_default folder, k]])"
    using a2 by (simp add: dom_getDedupeAliases getDedupeAliases_lookup)
  have a4: "\<forall>k. k \<notin> set mods \<or> k = ''__proto__'' \<longrightarrow> (a0 ++ ?new) k = a0 k"
    using a1 by (auto simp: dom_getDedupeAliases)
  show "\<exists>r a. resolve (dedupeModules E config mods folder) = Some r \<and> alias r = Some a \<and>
        (\<forall>k. k \<notin> dom ?new \<longrightarrow> a k = a0 k) \<and>
        (\<forall>k. k \<in> dom ?new \<longrightarrow> a k = ?new k) \<and>
        (\<forall>k. k \<in> set mods \<and> k \<noteq> ''__proto__'' \<longrightarrow>
           a k = Some (path_resolve E [path_join E [folder_or_default folder, k]])) \<and>
        (\<forall>k. k \<notin> set mods \<or> k = ''__proto__'' \<longrightarrow> a k = a0 k) \<and>
        extensions r = extensions r0 \<and> modules r = modules r0"
  proof (intro exI [of _ "r0\<lparr>alias := Some (a0 ++ ?new)\<rparr>"] exI [of _ "a0 ++ ?new"] conjI)
    show "resolve (dedupeModules E config mods folder) = Some (r0\<lparr>alias := Some (a0 ++ ?new)\<rparr>)"
      by (rule r)
    show "alias (r0\<lparr>alias := Some (a0 ++ ?new)\<rparr>) = Some (a0 ++ ?new)" by simp
    show "\<forall>k. k \<notin> dom ?new \<longrightarrow> (a0 ++ ?new) k = a0 k" by (rule a1)
    show "\<forall>k. k \<in> dom ?new \<longrightarrow> (a0 ++ ?new) k = ?new k" by (rule a2)
    show "\<forall>k. k \<in> set mods \<and> k \<noteq> ''__proto__'' \<longrightarrow>
      (a0 ++ ?new) k = Some (path_resolve E [path_join E [folder_or_default folder, k]])" by (rule a3)
    show "\<forall>k. k \<notin> set mods \<or> k = ''__proto__'' \<longrightarrow> (a0 ++ ?new) k = a0 k" by (rule a4)
    show "extensions (r0\<lparr>alias := Some (a0 ++ ?new)\<rparr>) = extensions r0" by simp
    show "modules (r0\<lparr>alias := Some (a0 ++ ?new)\<rparr>) = modules r0" by simp
  qed
qed

theorem dedupeModules_alias_precedence_witness:
  "\<exists>r a. resolve (dedupeModules \<lparr>path_resolve = concat, path_join = concat, getEntries = id\<rparr>
       (empty_configuration\<lparr>resolve := Some
          \<lparr>alias = Some [''react'' \<mapsto> ''/old/react'', ''@'' \<mapsto> ''/src''],
           extensions = Some [''.js''], modules = None\<rparr>\<rparr>)
       [''react''] (Some ''/deps/'')) = Some r \<and> alias r = Some a \<and>
     a ''react'' = Some ''/deps/react'' \<and> a ''@'' = Some ''/src'' \<and> a ''vue'' = None"
proof -
  have h: "resolve (empty_configuration\<lparr>resolve := Some
          \<lparr>alias = Some [''react'' \<mapsto> ''/old/react'', ''@'' \<mapsto> ''/src''],
           extensions = Some [''.js''], modules = None\<rparr>\<rparr> :: string list Configuration)
      = Some \<lparr>alias = Some [''react'' \<mapsto> ''/old/react'', ''@'' \<mapsto> ''/src''],
           extensions = Some [''.js''], modules = None\<rparr> \<and>
     alias \<lparr>alias = Some [''react'' \<mapsto> ''/old/react'', ''@'' \<mapsto> ''/src''],
           extensions = Some [''.js''], modules = None\<rparr>
      = Some [''react'' \<mapsto> ''/old/react'', ''@'' \<mapsto> ''/src'']"
    by simp
  from dedupeModules_alias_precedence [rule_format, OF h,
      of "\<lparr>path_resolve = concat, path_join = concat, getEntries = id\<rparr>" "[''react'']" "Some ''/deps/''"]
  obtain r a where ra:
    "resolve (dedupeModules \<lparr>path_resolve = concat, path_join = concat, getEntries = id\<rparr>
       (empty_configuration\<lparr>resolve := Some
          \<lparr>alias = Some [''react'' \<mapsto> ''/old/react'', ''@'' \<mapsto> ''/src''],
           extensions = Some [''.js''], modules = None\<rparr>\<rparr>)
       [''react''] (Some ''/deps/'')) = Some r"
    "alias r = Some a"
    "\<forall>k. k \<in> set [''react''] \<and> k \<noteq> ''__proto__'' \<longrightarrow>
       a k = Some (path_resolve \<lparr>path_resolve = concat, path_join = concat, getEntries = id\<rparr>
         [path_join \<lparr>path_resolve = concat, path_join = concat, getEntries = id\<rparr>
            [folder_or_default (Some ''/deps/''), k]])"
    "\<forall>k. k \<notin> set [''react''] \<or> k = ''__proto__'' \<longrightarrow>
       a k = [''react'' \<mapsto> ''/old/react'', ''@'' \<mapsto> ''/src''] k"
    by (elim exE conjE) (rule that; assumption)
  from ra(3) have "a ''react'' = Some ''/deps/react''"
    by (simp add: folder_or_default_def)
  moreover from ra(4) have "a ''@'' = Some ''/src''" "a ''vue'' = None"
    by simp_all
  ultimately show ?thesis
    using ra(1,2) by (intro exI [of _ r] exI [of _ a] conjI)
qed

section \<open>Properties of useExternal: the copy plugin\<close>

lemma plugins_useExternal_present: "plugins (useExternal config d) \<noteq> None"
  by (simp add: useExternal_def Let_def split: option.splits)

lemma useExternal_no_copy:
  "\<not> (truthy_string (from d) \<and> truthy_string (to d)) \<Longrightarrow>
     useExternal config d =
       config\<lparr>externals := Some (merge_externals (externals config) (external_of d)),
              plugins := Some (plugins_or_empty config)\<rparr>"
  by (auto simp: useExternal_def Let_def plugins_or_empty_def)

lemma merge_externals_holds_new:
  "merge_externals old x = ExternalsElement x \<or> (\<exists>xs. merge_externals old x = ExternalsArray (xs @ [x]))"
proof (cases old)
  case None
  then show ?thesis by (simp add: merge_externals_def)
next
  case (Some f)
  show ?thesis
  proof (cases f)
    case (ExternalsElement y)
    have "[y, x] = [y] @ [x]" by simp
    with Some ExternalsElement show ?thesis
      by (auto simp: merge_externals_def)
  next
    case (ExternalsArray ys)
    with Some show ?thesis by (simp add: merge_externals_def)
  qed
qed

text \<open>
  Claim C10. When \<open>from\<close> or \<open>to\<close> of the definition is the empty string, \<open>useExternal\<close>
  leaves the plugins as they were (an absent list becomes the empty list) and does what it
  does when that field is omitted. In every case the externals field holds the merge of the
  old value with the new mapping, which is the field itself or the last element of its
  list, and the plugins list is present.
\<close>

theorem useExternal_empty_path_no_copy:
  "(from d = Some '''' \<or> to d = Some '''' \<longrightarrow>
      plugins (useExternal config d) = Some (plugins_or_empty config) \<and>
      useExternal config d = useExternal config (d\<lparr>from := None\<rparr>) \<and>
      useExternal config d = useExternal config (d\<lparr>to := None\<rparr>)) \<and>
   externals (useExternal config d) = Some (merge_externals (externals config) (external_of d)) \<and>
   (externals (useExternal config d) = Some (ExternalsElement (external_of d)) \<or>
    (\<exists>xs. externals (useExternal config d) = Some (ExternalsArray (xs @ [external_of d])))) \<and>
   plugins (useExternal config d) \<noteq> None"
proof (intro conjI impI)
  assume h: "from d = Some '''' \<or> to d = Some ''''"
  then have n: "\<not> (truthy_string (from d) \<and> truthy_string (to d))" by auto
  have n1: "\<not> (truthy_string (from (d\<lparr>from := None\<rparr>)) \<and> truthy_string (to (d\<lparr>from := None\<rparr>)))"
    by simp
  have n2: "\<not> (truthy_string (from (d\<lparr>to := None\<rparr>)) \<and> truthy_string (to (d\<lparr>to := None\<rparr>)))"
    by simp
  show "plugins (useExternal config d) = Some (plugins_or_empty config)"
    by (simp add: useExternal_no_copy [OF n])
  show "useExternal config d = useExternal config (d\<lparr>from := None\<rparr>)"
    by (simp add: useExternal_no_copy [OF n] useExternal_no_copy [OF n1] external_of_def)
  show "useExternal config d = useExternal config (d\<lparr>to := None\<rparr>)"
    by (simp add: useExternal_no_copy [OF n] useExternal_no_copy [OF n2] external_of_def)
next
  show "externals (useExternal config d) = Some (merge_externals (externals config) (external_of d))"
    by (rule externals_useExternal)
next
  show "externals (useExternal config d) = Some (ExternalsElement (external_of d)) \<or>
    (\<exists>xs. externals (useExternal config d) = Some (ExternalsArray (xs @ [external_of d])))"
    using merge_externals_holds_new [of "externals config" "external_of d"]
    by (simp add: externals_useExternal)
next
  show "plugins (useExternal config d) \<noteq> None" by (rule plugins_useExternal_present)
qed

theorem useExternal_empty_path_no_copy_witness:
  "useExternal (empty_configuration :: unit Configuration)
      \<lparr>module_id = ''jquery'', global = ''jQuery'', from = Some ''node_modules/jquery/dist/jquery.js'',
       to = Some ''''\<rparr>
     = empty_configuration\<lparr>externals := Some (ExternalsElement (ExtObject [(''jquery'', EVString ''jQuery'')])),
         plugins := Some []\<rparr> \<and>
   useExternal (empty_configuration :: unit Configuration)
      \<lparr>module_id = ''jquery'', global = ''jQuery'', from = Some '''', to = Some ''scripts/jquery.js''\<rparr>
     = empty_configuration\<lparr>externals := Some (ExternalsElement (ExtObject [(''jquery'', EVString ''jQuery'')])),
         plugins := Some []\<rparr> \<and>
   useExternal (empty_configuration :: unit Configuration)
      \<lparr>module_id = ''jquery'', global = ''jQuery'', from = Some ''node_modules/jquery/dist/jquery.js'',
       to = Some ''scripts/jquery.js''\<rparr>
     = empty_configuration\<lparr>externals := Some (ExternalsElement (ExtObject [(''jquery'', EVString ''jQuery'')])),
         plugins := Some [new_CopyPlugin ''node_modules/jquery/dist/jquery.js'' ''scripts/jquery.js'']\<rparr>"
  using
    useExternal_empty_path_no_copy
      [of "\<lparr>module_id = ''jquery'', global = ''jQuery'', from = Some ''node_modules/jquery/dist/jquery.js'',
              to = Some ''''\<rparr>" "empty_configuration :: unit Configuration"]
    useExternal_empty_path_no_copy
      [of "\<lparr>module_id = ''jquery'', global = ''jQuery'', from = Some '''', to = Some ''scripts/jquery.js''\<rparr>"
          "empty_configuration :: unit Configuration"]
  by (simp add: useExternal_def Let_def plugins_or_empty_def merge_externals_def external_of_def
      empty_configuration_def)

section \<open>Absent containers\<close>

lemma dedupeModules_initialised:
  "dedupeModules E config mods folder =
     dedupeModules E
       (config\<lparr>resolve := Some ((resolve_or_empty config)\<lparr>alias := Some (spread_alias (resolve_or_empty config))\<rparr>),
               plugins := Some (plugins_or_empty config)\<rparr>)
       mods folder"
  by (simp add: dedupeModules_def Let_def resolve_or_empty_def plugins_or_empty_def spread_alias_def)

lemma useSourceMap_initialised: "useSourceMap config True = useSourceMap (init_module config) True"
  by (simp add: useSourceMap_def init_module_def)

lemma useCss_initialised: "useCss config options = useCss (init_module config) options"
  by (simp add: useCss_def init_module_idem)

lemma typescript_options_init:
  "typescript_options E (init_typescript_resolve config) options = typescript_options E config options"
  "typescript_options E (init_module config) options = typescript_options E config options"
  by (simp_all add: typescript_options_def typescript_defaults_def context_or_app_def
      init_module_def init_typescript_resolve_def)

lemma typescript_resolve_init:
  "typescript_resolve o' (init_typescript_resolve config) = typescript_resolve o' config"
  by (simp add: typescript_resolve_def Let_def init_typescript_resolve_def resolve_or_empty_def
      split: option.splits)

lemma useTypescript_resolve_initialised:
  "useTypescript E config options = useTypescript E (init_typescript_resolve config) options"
  by (simp add: useTypescript_def Let_def typescript_options_init typescript_resolve_init)

lemma typescript_options_module_update:
  "typescript_options E (config\<lparr>module := m\<rparr>) options = typescript_options E config options"
  by (simp add: typescript_options_def typescript_defaults_def context_or_app_def)

lemma init_module_present: "module config = Some m \<Longrightarrow> init_module config = config"
proof -
  assume m: "module config = Some m"
  have "config\<lparr>module := module config\<rparr> = config" by simp
  with m show ?thesis by (simp add: init_module_def)
qed

lemma useTypescript_module_initialised:
  assumes "returned (useTypescript E config options)"
  shows "useTypescript E config options = useTypescript E (init_module config) options"
proof (cases "module config")
  case None
  from assms obtain ms' ps where h:
      "modules' (typescript_options E config options) = Some ms'"
      "entryPaths' (typescript_options E config options) = Some ps"
    by (auto simp: returned_useTypescript)
  have i: "init_module config = config\<lparr>module := Some \<lparr>rules = Some []\<rparr>\<rparr>"
    using None by (simp add: init_module_def)
  show ?thesis
    unfolding i
    using None h
    by (simp add: useTypescript_def Let_def typescript_options_module_update
        typescript_resolve_def typescript_entry_def typescript_rules_def init_module_def
        resolve_or_empty_def)
next
  case (Some m)
  then show ?thesis by (simp add: init_module_present)
qed

lemma useExternal_initialised:
  "useExternal config d = useExternal (config\<lparr>plugins := Some (plugins_or_empty config)\<rparr>) d"
  by (cases "plugins config")
     (simp_all add: useExternal_def Let_def plugins_or_empty_def split: option.splits)

lemma resolve_final_typescript_rules:
  "resolve (final (typescript_rules o' c)) = resolve c"
  by (simp add: typescript_rules_def resolve_two_pushes resolve_init_module)

lemma containers_after_useTypescript:
  "\<exists>r es ms. resolve (fst (final (useTypescript E config options))) = Some r \<and>
     extensions r = Some es \<and> modules r = Some ms"
  by (cases "modules' (typescript_options E config options)";
      cases "entryPaths' (typescript_options E config options)")
     (simp_all add: useTypescript_def Let_def final_with_options typescript_resolve_def
        typescript_entry_def resolve_final_typescript_rules)

lemma module_after_useTypescript:
  assumes "returned (useTypescript E config options)"
  shows "module (fst (final (useTypescript E config options))) \<noteq> None"
proof -
  from assms obtain ms' ps where h:
      "modules' (typescript_options E config options) = Some ms'"
      "entryPaths' (typescript_options E config options) = Some ps"
    by (auto simp: returned_useTypescript)
  then show ?thesis
    by (simp add: useTypescript_def Let_def final_with_options typescript_resolve_def
        typescript_entry_def typescript_rules_def module_two_pushes module_init_module)
qed

lemma module_after_useCss: "module (fst (final (useCss config options))) \<noteq> None"
  by (simp add: useCss_def Let_def final_with_options module_two_pushes module_init_module)

lemma module_after_useSourceMap: "module (final (useSourceMap config True)) \<noteq> None"
  by (simp add: useSourceMap_def push_rule_def init_module_def split: option.splits)

lemma containers_after_dedupeModules:
  "(\<exists>r a. resolve (dedupeModules E config mods folder) = Some r \<and> alias r = Some a) \<and>
   plugins (dedupeModules E config mods folder) \<noteq> None"
  by (simp add: dedupeModules_def Let_def)

text \<open>
  A module record without a rules list is fatal for \<open>useTypescript\<close> and \<open>useCss\<close>, and
  \<open>fixZipPackage\<close> leaves an absent plugins list absent.
\<close>

theorem useTypescript_undeclared_rules_counterexample:
  "\<not> returned (useTypescript \<lparr>path_resolve = concat, path_join = concat, getEntries = id\<rparr>
       (empty_configuration\<lparr>module := Some \<lparr>rules = None\<rparr>\<rparr>) None) \<and>
   \<not> returned (useCss (empty_configuration\<lparr>module := Some \<lparr>rules = None\<rparr>\<rparr> :: unit Configuration) None) \<and>
   plugins (fixZipPackage (empty_configuration :: unit Configuration)) = None"
  by (simp add: returned_useTypescript returned_useCss rules_declared_def empty_configuration_def
      fixZipPackage_def)

text \<open>
  Claim C7, amended. When the module record, if there is one, has a rules list,
  \<open>useSourceMap\<close> and \<open>useCss\<close> return, and \<open>useTypescript\<close> returns provided the merged
  \<^verbatim>\<open>modules\<close> and \<^verbatim>\<open>entryPaths\<close> of its options are not \<^verbatim>\<open>undefined\<close>. A module record
  without a rules list makes \<open>useSourceMap\<close> with the development flag, \<open>useTypescript\<close>
  and \<open>useCss\<close> raise, and merged \<^verbatim>\<open>modules\<close> or \<^verbatim>\<open>entryPaths\<close> that are \<^verbatim>\<open>undefined\<close> make
  \<open>useTypescript\<close> raise; \<open>useSourceMap\<close> without the flag returns; \<open>dedupeModules\<close>,
  \<open>useExternal\<close> and \<open>fixZipPackage\<close> cannot raise. Each call treats an absent resolve
  record, alias mapping, extensions list, modules list, module record or plugins list that
  it edits as an empty one (its result is the result on the configuration with these set to
  empty containers; for the module record of \<open>useTypescript\<close>, when the call returns) and
  leaves it present; \<open>fixZipPackage\<close> leaves a configuration without a plugins list as it
  is.
\<close>

theorem missing_containers_initialised:
  "(rules_declared config \<longrightarrow>
      returned (useSourceMap config dev) \<and>
      returned (useCss config css) \<and>
      (modules' (typescript_options E config ts) \<noteq> None \<and>
       entryPaths' (typescript_options E config ts) \<noteq> None \<longrightarrow>
         returned (useTypescript E config ts))) \<and>
   (\<not> rules_declared config \<longrightarrow>
      \<not> returned (useSourceMap config True) \<and>
      \<not> returned (useTypescript E config ts) \<and>
      \<not> returned (useCss config css)) \<and>
   (modules' (typescript_options E config ts) = None \<or>
    entryPaths' (typescript_options E config ts) = None \<longrightarrow>
      \<not> returned (useTypescript E config ts)) \<and>
   returned (useSourceMap config False) \<and>
   dedupeModules E config mods folder =
     dedupeModules E
       (config\<lparr>resolve := Some ((resolve_or_empty config)\<lparr>alias := Some (spread_alias (resolve_or_empty config))\<rparr>),
               plugins := Some (plugins_or_empty config)\<rparr>)
       mods folder \<and>
   useSourceMap config True = useSourceMap (init_module config) True \<and>
   useTypescript E config ts = useTypescript E (init_typescript_resolve config) ts \<and>
   (returned (useTypescript E config ts) \<longrightarrow>
      useTypescript E config ts = useTypescript E (init_module config) ts) \<and>
   useCss config css = useCss (init_module config) css \<and>
   useExternal config d = useExternal (config\<lparr>plugins := Some (plugins_or_empty config)\<rparr>) d \<and>
   (plugins config = None \<longrightarrow> fixZipPackage config = config) \<and>
   (\<exists>r a. resolve (dedupeModules E config mods folder) = Some r \<and> alias r = Some a) \<and>
   plugins (dedupeModules E config mods folder) \<noteq> None \<and>
   module (final (useSourceMap config True)) \<noteq> None \<and>
   (\<exists>r es ms. resolve (fst (final (useTypescript E config ts))) = Some r \<and>
      extensions r = Some es \<and> modules r = Some ms) \<and>
   (returned (useTypescript E config ts) \<longrightarrow>
      module (fst (final (useTypescript E config ts))) \<noteq> None) \<and>
   module (fst (final (useCss config css))) \<noteq> None \<and>
   plugins (useExternal config d) \<noteq> None"
proof (intro conjI impI)
  assume h: "rules_declared config"
  show "returned (useSourceMap config dev)" using h by (simp add: returned_useSourceMap)
  show "returned (useCss config css)" using h by (simp add: returned_useCss)
  assume "modules' (typescript_options E config ts) \<noteq> None \<and>
       entryPaths' (typescript_options E config ts) \<noteq> None"
  then show "returned (useTypescript E config ts)" using h by (simp add: returned_useTypescript)
next
  assume h: "\<not> rules_declared config"
  show "\<not> returned (useSourceMap config True)" using h by (simp add: returned_useSourceMap)
  show "\<not> returned (useTypescript E config ts)" using h by (simp add: returned_useTypescript)
  show "\<not> returned (useCss config css)" using h by (simp add: returned_useCss)
next
  assume "modules' (typescript_options E config ts) = None \<or>
    entryPaths' (typescript_options E config ts) = None"
  then show "\<not> returned (useTypescript E config ts)"
    by (auto simp: returned_useTypescript)
next
  show "returned (useSourceMap config False)" by (simp add: returned_useSourceMap)
next
  show "dedupeModules E config mods folder =
     dedupeModules E
       (config\<lparr>resolve := Some ((resolve_or_empty config)\<lparr>alias := Some (spread_alias (resolve_or_empty config))\<rparr>),
               plugins := Some (plugins_or_empty config)\<rparr>)
       mods folder"
    by (rule dedupeModules_initialised)
next
  show "useSourceMap config True = useSourceMap (init_module config) True"
    by (rule useSourceMap_initialised)
next
  show "useTypescript E config ts = useTypescript E (init_typescript_resolve config) ts"
    by (rule useTypescript_resolve_initialised)
next
  assume "returned (useTypescript E config ts)"
  then show "useTypescript E config ts = useTypescript E (init_module config) ts"
    by (rule useTypescript_module_initialised)
next
  show "useCss config css = useCss (init_module config) css" by (rule useCss_initialised)
next
  show "useExternal config d = useExternal (config\<lparr>plugins := Some (plugins_or_empty config)\<rparr>) d"
    by (rule useExternal_initialised)
next
  assume "plugins config = None"
  then show "fixZipPackage config = config" by (simp add: fixZipPackage_def)
next
  show "\<exists>r a. resolve (dedupeModules E config mods folder) = Some r \<and> alias r = Some a"
    using containers_after_dedupeModules [of E config mods folder] by (rule conjunct1)
next
  show "plugins (dedupeModules E config mods folder) \<noteq> None"
    using containers_after_dedupeModules [of E config mods folder] by (rule conjunct2)
next
  show "module (final (useSourceMap config True)) \<noteq> None" by (rule module_after_useSourceMap)
next
  show "\<exists>r es ms. resolve (fst (final (useTypescript E config ts))) = Some r \<and>
      extensions r = Some es \<and> modules r = Some ms"
    by (rule containers_after_useTypescript)
next
  assume "returned (useTypescript E config ts)"
  then show "module (fst (final (useTypescript E config ts))) \<noteq> None"
    by (rule module_after_useTypescript)
next
  show "module (fst (final (useCss config css))) \<noteq> None" by (rule module_after_useCss)
next
  show "plugins (useExternal config d) \<noteq> None" by (rule plugins_useExternal_present)
qed

theorem missing_containers_initialised_witness:
  "rules_declared (empty_configuration :: string list Configuration) \<and>
   plugins (empty_configuration :: string list Configuration) = None \<and>
   returned (useSourceMap (empty_configuration :: string list Configuration) True) \<and>
   returned (useTypescript \<lparr>path_resolve = concat, path_join = concat, getEntries = id\<rparr>
     empty_configuration None) \<and>
   returned (useCss (empty_configuration :: string list Configuration) None) \<and>
   fixZipPackage (empty_configuration :: string list Configuration) = empty_configuration \<and>
   \<not> rules_declared (empty_configuration\<lparr>module := Some \<lparr>rules = None\<rparr>\<rparr> :: string list Configuration) \<and>
   \<not> returned (useSourceMap
     (empty_configuration\<lparr>module := Some \<lparr>rules = None\<rparr>\<rparr> :: string list Configuration) True) \<and>
   \<not> returned (useTypescript \<lparr>path_resolve = concat, path_join = concat, getEntries = id\<rparr>
     empty_configuration
     (Some \<lparr>entryPaths = Absent, modules_option = Undefined, tsConfigFile = Absent\<rparr>))"
proof -
  let ?E = "\<lparr>path_resolve = concat, path_join = concat, getEntries = id\<rparr>
    :: string list collaborators"
  let ?C = "empty_configuration :: string list Configuration"
  let ?D = "empty_configuration\<lparr>module := Some \<lparr>rules = None\<rparr>\<rparr> :: string list Configuration"
  let ?U = "Some \<lparr>entryPaths = Absent, modules_option = Undefined, tsConfigFile = Absent\<rparr>"
  have h1: "rules_declared ?C"
    by (simp add: rules_declared_def empty_configuration_def)
  have h2: "\<not> rules_declared ?D"
    by (simp add: rules_declared_def empty_configuration_def)
  have p: "plugins ?C = None"
    by (simp add: empty_configuration_def)
  have o: "modules' (typescript_options ?E ?C None) \<noteq> None \<and>
      entryPaths' (typescript_options ?E ?C None) \<noteq> None"
    by (simp add: typescript_options_def typescript_defaults_def spread_typescript_def)
  have u: "modules' (typescript_options ?E ?C ?U) = None \<or>
      entryPaths' (typescript_options ?E ?C ?U) = None"
    by (simp add: typescript_options_def typescript_defaults_def spread_typescript_def)
  note t1 = missing_containers_initialised [of ?C True None ?E None]
  note t2 = missing_containers_initialised [of ?D True None ?E None]
  note t3 = missing_containers_initialised [of ?C True None ?E ?U]
  from t1 [THEN conjunct1, rule_format, OF h1]
  have a: "returned (useSourceMap ?C True)" "returned (useCss ?C None)"
      "modules' (typescript_options ?E ?C None) \<noteq> None \<and>
       entryPaths' (typescript_options ?E ?C None) \<noteq> None \<longrightarrow>
         returned (useTypescript ?E ?C None)"
    by (rule conjunct1, rule conjunct2 [THEN conjunct1], rule conjunct2 [THEN conjunct2])
  from a(3) o have a3: "returned (useTypescript ?E ?C None)" by (rule mp)
  from t1 [THEN conjunct2, THEN conjunct2, THEN conjunct2, THEN conjunct2, THEN conjunct2,
      THEN conjunct2, THEN conjunct2, THEN conjunct2, THEN conjunct2, THEN conjunct2,
      THEN conjunct1] p
  have b: "fixZipPackage ?C = ?C" by (rule mp)
  from t2 [THEN conjunct2, THEN conjunct1, rule_format, OF h2]
  have c: "\<not> returned (useSourceMap ?D True)" by (rule conjunct1)
  from t3 [THEN conjunct2, THEN conjunct2, THEN conjunct1] u
  have e: "\<not> returned (useTypescript ?E ?C ?U)" by (rule mp)
  from h1 p a(1) a3 a(2) b h2 c e show ?thesis by (intro conjI)
qed

end
